theory Spec2Isabelle
  imports Main "HOL-Library.Word"
begin

section \<open>Types of the wrapper and of the driver layer\<close>

text \<open>
  \<^verbatim>\<open>uint8_t\<close> and \<^verbatim>\<open>uint32_t\<close> are words: arithmetic wraps around, comparisons are
  unsigned.
\<close>

type_synonym u8 = "8 word"
type_synonym u32 = "32 word"

text \<open>The enumerations of class \<^verbatim>\<open>STM32RTC\<close> that STM32RTC.cpp names.\<close>

datatype Hour_Format = HOUR_12 | HOUR_24
datatype AM_PM = AM | PM
datatype Source_Clock = LSI_CLOCK | LSE_CLOCK | HSE_CLOCK
datatype Alarm_Match =
  MATCH_OFF | MATCH_SS | MATCH_MMSS | MATCH_HHMMSS | MATCH_DHHMMSS
  | MATCH_MMDDHHMMSS | MATCH_YYMMDDHHMMSS

text \<open>
  The driver layer's enumerations (\<^verbatim>\<open>::LSE_CLOCK\<close> and its siblings are written with the
  prefix \<open>drv\<close>, since the class has enumerators of the same names).
\<close>

datatype hourFormat_t = HOUR_FORMAT_12 | HOUR_FORMAT_24
datatype hourAM_PM_t = HOUR_AM | HOUR_PM
datatype sourceClock_t = drv_LSI_CLOCK | drv_LSE_CLOCK | drv_HSE_CLOCK

text \<open>\<^verbatim>\<open>struct tm\<close> of \<^verbatim>\<open>time.h\<close>; every field is a C \<^verbatim>\<open>int\<close>.\<close>

record tm =
  tm_sec :: int
  tm_min :: int
  tm_hour :: int
  tm_mday :: int
  tm_mon :: int
  tm_year :: int
  tm_wday :: int
  tm_yday :: int
  tm_isdst :: int

section \<open>What STM32RTC.cpp calls and does not define\<close>

text \<open>
  The driver functions (\<^verbatim>\<open>RTC_SetTime\<close>, \<^verbatim>\<open>RTC_GetTime\<close>, ...) are not part of
  STM32RTC.cpp. They are parameters of the model: a record of functions over a hardware
  state of an arbitrary type \<open>'hw\<close>. A driver function that the wrapper calls with
  pointers to its members receives the members' current values and returns the values
  they hold afterwards, so a driver that leaves an output untouched is covered. The
  local \<^verbatim>\<open>match\<close> of \<^verbatim>\<open>syncAlarmTime\<close> is passed uninitialised, so \<open>RTC_GetAlarm\<close> returns
  it without receiving it.

  The same record holds what STM32RTC.cpp takes from headers that are not among the
  sources: the macros \<^verbatim>\<open>RTC_WEEKDAY_SUNDAY\<close> and \<^verbatim>\<open>IS_CLOCK_SOURCE\<close>, the numeric values of
  the \<^verbatim>\<open>Alarm_Match\<close> enumerators (for \<^verbatim>\<open>static_cast<uint8_t>\<close>), and the default
  arguments that the calls in STM32RTC.cpp leave out (\<open>default_period\<close> for
  \<^verbatim>\<open>setAlarmHours\<close>, \<open>default_subSeconds\<close> for \<^verbatim>\<open>setEpoch\<close>).
\<close>

type_synonym time_vals = "u8 \<times> u8 \<times> u8 \<times> u32 \<times> hourAM_PM_t"
type_synonym date_vals = "u8 \<times> u8 \<times> u8 \<times> u8"
type_synonym alarm_vals = "u8 \<times> u8 \<times> u8 \<times> u8 \<times> u32 \<times> hourAM_PM_t"

record 'hw platform =
  RTC_init :: "hourFormat_t \<Rightarrow> sourceClock_t \<Rightarrow> bool \<Rightarrow> 'hw \<Rightarrow> bool \<times> 'hw"
  RTC_DeInit :: "'hw \<Rightarrow> 'hw"
  RTC_SetClockSource :: "sourceClock_t \<Rightarrow> 'hw \<Rightarrow> 'hw"
  RTC_StartAlarm :: "u8 \<Rightarrow> u8 \<Rightarrow> u8 \<Rightarrow> u8 \<Rightarrow> u32 \<Rightarrow> hourAM_PM_t \<Rightarrow> u8 \<Rightarrow> 'hw \<Rightarrow> 'hw"
  RTC_StopAlarm :: "'hw \<Rightarrow> 'hw"
  RTC_GetAlarm :: "alarm_vals \<Rightarrow> 'hw \<Rightarrow> (alarm_vals \<times> u8) \<times> 'hw"
  RTC_SetTime :: "u8 \<Rightarrow> u8 \<Rightarrow> u8 \<Rightarrow> u32 \<Rightarrow> hourAM_PM_t \<Rightarrow> 'hw \<Rightarrow> 'hw"
  RTC_GetTime :: "time_vals \<Rightarrow> 'hw \<Rightarrow> time_vals \<times> 'hw"
  RTC_SetDate :: "u8 \<Rightarrow> u8 \<Rightarrow> u8 \<Rightarrow> u8 \<Rightarrow> 'hw \<Rightarrow> 'hw"
  RTC_GetDate :: "date_vals \<Rightarrow> 'hw \<Rightarrow> date_vals \<times> 'hw"
  RTC_WEEKDAY_SUNDAY :: u8
  IS_CLOCK_SOURCE :: "Source_Clock \<Rightarrow> bool"
  Alarm_Match_value :: "Alarm_Match \<Rightarrow> u8"
  default_period :: AM_PM
  default_subSeconds :: u32

section \<open>The object, the static flag and the hardware\<close>

text \<open>
  One record holds the members of the \<^verbatim>\<open>STM32RTC\<close> object (\<^verbatim>\<open>_hours\<close> is \<open>m_hours\<close>, and
  so on), the static member \<^verbatim>\<open>_timeSet\<close> (\<open>s_timeSet\<close>) and the state of the hardware
  behind the driver (\<open>hw\<close>). A method is a function from this record to this record; a
  method that returns a value returns it paired with the new record.
\<close>

record 'hw STM32RTC =
  m_format :: Hour_Format
  m_clockSource :: Source_Clock
  m_hours :: u8
  m_minutes :: u8
  m_seconds :: u8
  m_subSeconds :: u32
  m_hoursPeriod :: AM_PM
  m_wday :: u8
  m_day :: u8
  m_month :: u8
  m_year :: u8
  m_alarmDay :: u8
  m_alarmHours :: u8
  m_alarmMinutes :: u8
  m_alarmSeconds :: u8
  m_alarmSubSeconds :: u32
  m_alarmPeriod :: AM_PM
  m_alarmMatch :: Alarm_Match
  s_timeSet :: bool
  hw :: 'hw

definition EPOCH_TIME_OFF :: u32 where
  "EPOCH_TIME_OFF = 946684800"

definition EPOCH_TIME_YEAR_OFF :: int where
  "EPOCH_TIME_YEAR_OFF = 100"

section \<open>Synchronising the cached copy from the hardware\<close>

definition syncTime :: "'hw platform \<Rightarrow> 'hw STM32RTC \<Rightarrow> 'hw STM32RTC" where
  "syncTime env s =
     (case RTC_GetTime env (m_hours s, m_minutes s, m_seconds s, m_subSeconds s, HOUR_AM) (hw s) of
        ((h, mi, se, ss, p), hw') \<Rightarrow>
          s\<lparr>m_hours := h, m_minutes := mi, m_seconds := se, m_subSeconds := ss,
            m_hoursPeriod := (if p = HOUR_AM then AM else PM), hw := hw'\<rparr>)"

definition syncDate :: "'hw platform \<Rightarrow> 'hw STM32RTC \<Rightarrow> 'hw STM32RTC" where
  "syncDate env s =
     (case RTC_GetDate env (m_year s, m_month s, m_day s, m_wday s) (hw s) of
        ((y, mo, d, w), hw') \<Rightarrow>
          s\<lparr>m_year := y, m_month := mo, m_day := d, m_wday := w, hw := hw'\<rparr>)"

text \<open>
  The \<^verbatim>\<open>switch\<close> of \<^verbatim>\<open>syncAlarmTime\<close> over the byte the driver returned: a byte that is the
  value of an enumerator gives that enumerator (the cases in the source's order), any
  other byte gives \<open>MATCH_OFF\<close>.
\<close>

definition match_of_byte :: "'hw platform \<Rightarrow> u8 \<Rightarrow> Alarm_Match" where
  "match_of_byte env b =
     (if b = Alarm_Match_value env MATCH_OFF then MATCH_OFF
      else if b = Alarm_Match_value env MATCH_YYMMDDHHMMSS then MATCH_YYMMDDHHMMSS
      else if b = Alarm_Match_value env MATCH_MMDDHHMMSS then MATCH_MMDDHHMMSS
      else if b = Alarm_Match_value env MATCH_DHHMMSS then MATCH_DHHMMSS
      else if b = Alarm_Match_value env MATCH_HHMMSS then MATCH_HHMMSS
      else if b = Alarm_Match_value env MATCH_MMSS then MATCH_MMSS
      else if b = Alarm_Match_value env MATCH_SS then MATCH_SS
      else MATCH_OFF)"

definition syncAlarmTime :: "'hw platform \<Rightarrow> 'hw STM32RTC \<Rightarrow> 'hw STM32RTC" where
  "syncAlarmTime env s =
     (case RTC_GetAlarm env
             (m_alarmDay s, m_alarmHours s, m_alarmMinutes s, m_alarmSeconds s,
              m_alarmSubSeconds s, HOUR_AM) (hw s) of
        (((d, h, mi, se, ss, p), match), hw') \<Rightarrow>
          s\<lparr>m_alarmDay := d, m_alarmHours := h, m_alarmMinutes := mi, m_alarmSeconds := se,
            m_alarmSubSeconds := ss, m_alarmPeriod := (if p = HOUR_AM then AM else PM),
            m_alarmMatch := match_of_byte env match, hw := hw'\<rparr>)"

section \<open>Initialisation\<close>

text \<open>
  \<^verbatim>\<open>begin(bool resetTime, Hour_Format format)\<close>, \<^verbatim>\<open>begin(Hour_Format format)\<close> and
  \<^verbatim>\<open>end()\<close>; the names carry a suffix since \<open>begin\<close> and \<open>end\<close> are reserved.
\<close>

definition sourceClock_of :: "Source_Clock \<Rightarrow> sourceClock_t" where
  "sourceClock_of c =
     (if c = LSE_CLOCK then drv_LSE_CLOCK
      else if c = HSE_CLOCK then drv_HSE_CLOCK else drv_LSI_CLOCK)"

definition begin_reset :: "'hw platform \<Rightarrow> bool \<Rightarrow> Hour_Format \<Rightarrow> 'hw STM32RTC \<Rightarrow> 'hw STM32RTC" where
  "begin_reset env resetTime format s =
     (let s = (if resetTime then s\<lparr>s_timeSet := False\<rparr> else s);
          s = s\<lparr>m_format := format\<rparr>;
          (reinit, hw') =
             RTC_init env (if format = HOUR_12 then HOUR_FORMAT_12 else HOUR_FORMAT_24)
               (sourceClock_of (m_clockSource s)) resetTime (hw s);
          s = s\<lparr>hw := hw'\<rparr>
      in if reinit then
           (let s = s\<lparr>s_timeSet := False\<rparr>;
                s = syncTime env s;
                s = syncDate env s
            in s\<lparr>m_alarmDay := m_day s, m_alarmHours := m_hours s,
                 m_alarmMinutes := m_minutes s, m_alarmSeconds := m_seconds s,
                 m_alarmSubSeconds := m_subSeconds s, m_alarmPeriod := m_hoursPeriod s\<rparr>)
         else s\<lparr>s_timeSet := True\<rparr>)"

definition begin_format :: "'hw platform \<Rightarrow> Hour_Format \<Rightarrow> 'hw STM32RTC \<Rightarrow> 'hw STM32RTC" where
  "begin_format env format s = begin_reset env False format s"

definition end_rtc :: "'hw platform \<Rightarrow> 'hw STM32RTC \<Rightarrow> 'hw STM32RTC" where
  "end_rtc env s = (let s = s\<lparr>hw := RTC_DeInit env (hw s)\<rparr> in s\<lparr>s_timeSet := False\<rparr>)"

definition getClockSource :: "'hw STM32RTC \<Rightarrow> Source_Clock \<times> 'hw STM32RTC" where
  "getClockSource s = (m_clockSource s, s)"

definition setClockSource :: "'hw platform \<Rightarrow> Source_Clock \<Rightarrow> 'hw STM32RTC \<Rightarrow> 'hw STM32RTC" where
  "setClockSource env source s =
     (if IS_CLOCK_SOURCE env source then
        (let s = s\<lparr>m_clockSource := source\<rparr>
         in s\<lparr>hw := RTC_SetClockSource env (sourceClock_of (m_clockSource s)) (hw s)\<rparr>)
      else s)"

text \<open>
  Not modelled, since no property below concerns them: the prescaler access
  (\<^verbatim>\<open>getPrediv\<close>, \<^verbatim>\<open>setPrediv\<close>), the interrupt callbacks (\<^verbatim>\<open>attachInterrupt\<close> and its
  siblings), \<^verbatim>\<open>standbyMode\<close>, whose body is empty, and \<^verbatim>\<open>configForLowPower\<close>, which is
  compiled only with \<^verbatim>\<open>HAL_PWR_MODULE_ENABLED\<close>.
\<close>

section \<open>The alarm\<close>

text \<open>
  \<^verbatim>\<open>enableAlarm\<close>: the \<^verbatim>\<open>switch\<close> has one case for \<open>MATCH_OFF\<close> and one shared by the
  six other enumerators; its \<^verbatim>\<open>default\<close> is for a value that is no enumerator, which
  the datatype does not have.
\<close>

definition enableAlarm :: "'hw platform \<Rightarrow> Alarm_Match \<Rightarrow> 'hw STM32RTC \<Rightarrow> 'hw STM32RTC" where
  "enableAlarm env match s =
     (let s = s\<lparr>m_alarmMatch := match\<rparr>
      in case match of
           MATCH_OFF \<Rightarrow> s\<lparr>hw := RTC_StopAlarm env (hw s)\<rparr>
         | _ \<Rightarrow>
           \<comment> \<open>the six other enumerators\<close>
           s\<lparr>hw := RTC_StartAlarm env (m_alarmDay s) (m_alarmHours s) (m_alarmMinutes s)
                     (m_alarmSeconds s) (m_alarmSubSeconds s)
                     (if m_alarmPeriod s = AM then HOUR_AM else HOUR_PM)
                     (Alarm_Match_value env (m_alarmMatch s)) (hw s)\<rparr>)"

definition disableAlarm :: "'hw platform \<Rightarrow> 'hw STM32RTC \<Rightarrow> 'hw STM32RTC" where
  "disableAlarm env s = s\<lparr>hw := RTC_StopAlarm env (hw s)\<rparr>"

section \<open>Get functions\<close>

definition getSubSeconds :: "'hw platform \<Rightarrow> 'hw STM32RTC \<Rightarrow> u32 \<times> 'hw STM32RTC" where
  "getSubSeconds env s = (let s = syncTime env s in (m_subSeconds s, s))"

definition getSeconds :: "'hw platform \<Rightarrow> 'hw STM32RTC \<Rightarrow> u8 \<times> 'hw STM32RTC" where
  "getSeconds env s = (let s = syncTime env s in (m_seconds s, s))"

definition getMinutes :: "'hw platform \<Rightarrow> 'hw STM32RTC \<Rightarrow> u8 \<times> 'hw STM32RTC" where
  "getMinutes env s = (let s = syncTime env s in (m_minutes s, s))"

text \<open>
  \<^verbatim>\<open>getHours(AM_PM *period)\<close>: the second component is what a non-null \<^verbatim>\<open>period\<close>
  receives. The same holds for the other methods with output pointers.
\<close>

definition getHours :: "'hw platform \<Rightarrow> 'hw STM32RTC \<Rightarrow> (u8 \<times> AM_PM) \<times> 'hw STM32RTC" where
  "getHours env s = (let s = syncTime env s in ((m_hours s, m_hoursPeriod s), s))"

definition getTime ::
  "'hw platform \<Rightarrow> 'hw STM32RTC \<Rightarrow> (u8 \<times> u8 \<times> u8 \<times> u32 \<times> AM_PM) \<times> 'hw STM32RTC" where
  "getTime env s =
     (let s = syncTime env s
      in ((m_hours s, m_minutes s, m_seconds s, m_subSeconds s, m_hoursPeriod s), s))"

definition getWeekDay :: "'hw platform \<Rightarrow> 'hw STM32RTC \<Rightarrow> u8 \<times> 'hw STM32RTC" where
  "getWeekDay env s = (let s = syncDate env s in (m_wday s, s))"

definition getDay :: "'hw platform \<Rightarrow> 'hw STM32RTC \<Rightarrow> u8 \<times> 'hw STM32RTC" where
  "getDay env s = (let s = syncDate env s in (m_day s, s))"

definition getMonth :: "'hw platform \<Rightarrow> 'hw STM32RTC \<Rightarrow> u8 \<times> 'hw STM32RTC" where
  "getMonth env s = (let s = syncDate env s in (m_month s, s))"

definition getYear :: "'hw platform \<Rightarrow> 'hw STM32RTC \<Rightarrow> u8 \<times> 'hw STM32RTC" where
  "getYear env s = (let s = syncDate env s in (m_year s, s))"

definition getDate ::
  "'hw platform \<Rightarrow> 'hw STM32RTC \<Rightarrow> (u8 \<times> u8 \<times> u8 \<times> u8) \<times> 'hw STM32RTC" where
  "getDate env s = (let s = syncDate env s in ((m_wday s, m_day s, m_month s, m_year s), s))"

definition getAlarmSubSeconds :: "'hw platform \<Rightarrow> 'hw STM32RTC \<Rightarrow> u32 \<times> 'hw STM32RTC" where
  "getAlarmSubSeconds env s = (let s = syncAlarmTime env s in (m_alarmSubSeconds s, s))"

definition getAlarmSeconds :: "'hw platform \<Rightarrow> 'hw STM32RTC \<Rightarrow> u8 \<times> 'hw STM32RTC" where
  "getAlarmSeconds env s = (let s = syncAlarmTime env s in (m_alarmSeconds s, s))"

definition getAlarmMinutes :: "'hw platform \<Rightarrow> 'hw STM32RTC \<Rightarrow> u8 \<times> 'hw STM32RTC" where
  "getAlarmMinutes env s = (let s = syncAlarmTime env s in (m_alarmMinutes s, s))"

definition getAlarmHours :: "'hw platform \<Rightarrow> 'hw STM32RTC \<Rightarrow> (u8 \<times> AM_PM) \<times> 'hw STM32RTC" where
  "getAlarmHours env s =
     (let s = syncAlarmTime env s in ((m_alarmHours s, m_alarmPeriod s), s))"

definition getAlarmDay :: "'hw platform \<Rightarrow> 'hw STM32RTC \<Rightarrow> u8 \<times> 'hw STM32RTC" where
  "getAlarmDay env s = (let s = syncAlarmTime env s in (m_alarmDay s, s))"

definition getAlarmMonth :: "'hw STM32RTC \<Rightarrow> u8 \<times> 'hw STM32RTC" where
  "getAlarmMonth s = (0, s)"

definition getAlarmYear :: "'hw STM32RTC \<Rightarrow> u8 \<times> 'hw STM32RTC" where
  "getAlarmYear s = (0, s)"

section \<open>Set functions\<close>

text \<open>
  The call \<^verbatim>\<open>RTC_SetTime(_hours, _minutes, _seconds, _subSeconds, (_hoursPeriod == AM) ?
  HOUR_AM : HOUR_PM)\<close> and the call \<^verbatim>\<open>RTC_SetDate(_year, _month, _day, _wday)\<close>, which
  every time and date setter ends with.
\<close>

abbreviation call_RTC_SetTime :: "'hw platform \<Rightarrow> 'hw STM32RTC \<Rightarrow> 'hw STM32RTC" where
  "call_RTC_SetTime env s \<equiv>
     s\<lparr>hw := RTC_SetTime env (m_hours s) (m_minutes s) (m_seconds s) (m_subSeconds s)
               (if m_hoursPeriod s = AM then HOUR_AM else HOUR_PM) (hw s)\<rparr>"

abbreviation call_RTC_SetDate :: "'hw platform \<Rightarrow> 'hw STM32RTC \<Rightarrow> 'hw STM32RTC" where
  "call_RTC_SetDate env s \<equiv>
     s\<lparr>hw := RTC_SetDate env (m_year s) (m_month s) (m_day s) (m_wday s) (hw s)\<rparr>"

definition setSubSeconds :: "'hw platform \<Rightarrow> u32 \<Rightarrow> 'hw STM32RTC \<Rightarrow> 'hw STM32RTC" where
  "setSubSeconds env subSeconds s =
     (let s = syncTime env s;
          s = (if subSeconds < 1000 then s\<lparr>m_subSeconds := subSeconds\<rparr> else s);
          s = call_RTC_SetTime env s
      in s\<lparr>s_timeSet := True\<rparr>)"

definition setSeconds :: "'hw platform \<Rightarrow> u8 \<Rightarrow> 'hw STM32RTC \<Rightarrow> 'hw STM32RTC" where
  "setSeconds env seconds s =
     (let s = syncTime env s;
          s = (if seconds < 60 then s\<lparr>m_seconds := seconds\<rparr> else s);
          s = call_RTC_SetTime env s
      in s\<lparr>s_timeSet := True\<rparr>)"

definition setMinutes :: "'hw platform \<Rightarrow> u8 \<Rightarrow> 'hw STM32RTC \<Rightarrow> 'hw STM32RTC" where
  "setMinutes env minutes s =
     (let s = syncTime env s;
          s = (if minutes < 60 then s\<lparr>m_minutes := minutes\<rparr> else s);
          s = call_RTC_SetTime env s
      in s\<lparr>s_timeSet := True\<rparr>)"

definition setHours :: "'hw platform \<Rightarrow> u8 \<Rightarrow> AM_PM \<Rightarrow> 'hw STM32RTC \<Rightarrow> 'hw STM32RTC" where
  "setHours env hours period s =
     (let s = syncTime env s;
          s = (if hours < 24 then s\<lparr>m_hours := hours\<rparr> else s);
          s = (if m_format s = HOUR_12 then s\<lparr>m_hoursPeriod := period\<rparr> else s);
          s = call_RTC_SetTime env s
      in s\<lparr>s_timeSet := True\<rparr>)"

definition setTime ::
  "'hw platform \<Rightarrow> u8 \<Rightarrow> u8 \<Rightarrow> u8 \<Rightarrow> u32 \<Rightarrow> AM_PM \<Rightarrow> 'hw STM32RTC \<Rightarrow> 'hw STM32RTC" where
  "setTime env hours minutes seconds subSeconds period s =
     (let s = syncTime env s;
          s = (if subSeconds < 1000 then s\<lparr>m_subSeconds := subSeconds\<rparr> else s);
          s = (if seconds < 60 then s\<lparr>m_seconds := seconds\<rparr> else s);
          s = (if minutes < 60 then s\<lparr>m_minutes := minutes\<rparr> else s);
          s = (if hours < 24 then s\<lparr>m_hours := hours\<rparr> else s);
          s = (if m_format s = HOUR_12 then s\<lparr>m_hoursPeriod := period\<rparr> else s);
          s = call_RTC_SetTime env s
      in s\<lparr>s_timeSet := True\<rparr>)"

definition setWeekDay :: "'hw platform \<Rightarrow> u8 \<Rightarrow> 'hw STM32RTC \<Rightarrow> 'hw STM32RTC" where
  "setWeekDay env weekDay s =
     (let s = syncDate env s;
          s = (if weekDay \<ge> 1 \<and> weekDay \<le> 7 then s\<lparr>m_wday := weekDay\<rparr> else s);
          s = call_RTC_SetDate env s
      in s\<lparr>s_timeSet := True\<rparr>)"

definition setDay :: "'hw platform \<Rightarrow> u8 \<Rightarrow> 'hw STM32RTC \<Rightarrow> 'hw STM32RTC" where
  "setDay env day s =
     (let s = syncDate env s;
          s = (if day \<ge> 1 \<and> day \<le> 31 then s\<lparr>m_day := day\<rparr> else s);
          s = call_RTC_SetDate env s
      in s\<lparr>s_timeSet := True\<rparr>)"

definition setMonth :: "'hw platform \<Rightarrow> u8 \<Rightarrow> 'hw STM32RTC \<Rightarrow> 'hw STM32RTC" where
  "setMonth env month s =
     (let s = syncDate env s;
          s = (if month \<ge> 1 \<and> month \<le> 12 then s\<lparr>m_month := month\<rparr> else s);
          s = call_RTC_SetDate env s
      in s\<lparr>s_timeSet := True\<rparr>)"

definition setYear :: "'hw platform \<Rightarrow> u8 \<Rightarrow> 'hw STM32RTC \<Rightarrow> 'hw STM32RTC" where
  "setYear env year s =
     (let s = syncDate env s;
          s = (if year < 100 then s\<lparr>m_year := year\<rparr> else s);
          s = call_RTC_SetDate env s
      in s\<lparr>s_timeSet := True\<rparr>)"

text \<open>\<^verbatim>\<open>setDate(day, month, year)\<close> and \<^verbatim>\<open>setDate(weekDay, day, month, year)\<close>.\<close>

definition setDate :: "'hw platform \<Rightarrow> u8 \<Rightarrow> u8 \<Rightarrow> u8 \<Rightarrow> 'hw STM32RTC \<Rightarrow> 'hw STM32RTC" where
  "setDate env day month year s =
     (let s = syncDate env s;
          s = (if day \<ge> 1 \<and> day \<le> 31 then s\<lparr>m_day := day\<rparr> else s);
          s = (if month \<ge> 1 \<and> month \<le> 12 then s\<lparr>m_month := month\<rparr> else s);
          s = (if year < 100 then s\<lparr>m_year := year\<rparr> else s);
          s = call_RTC_SetDate env s
      in s\<lparr>s_timeSet := True\<rparr>)"

definition setDate_weekDay ::
  "'hw platform \<Rightarrow> u8 \<Rightarrow> u8 \<Rightarrow> u8 \<Rightarrow> u8 \<Rightarrow> 'hw STM32RTC \<Rightarrow> 'hw STM32RTC" where
  "setDate_weekDay env weekDay day month year s =
     (let s = syncDate env s;
          s = (if weekDay \<ge> 1 \<and> weekDay \<le> 7 then s\<lparr>m_wday := weekDay\<rparr> else s);
          s = (if day \<ge> 1 \<and> day \<le> 31 then s\<lparr>m_day := day\<rparr> else s);
          s = (if month \<ge> 1 \<and> month \<le> 12 then s\<lparr>m_month := month\<rparr> else s);
          s = (if year < 100 then s\<lparr>m_year := year\<rparr> else s);
          s = call_RTC_SetDate env s
      in s\<lparr>s_timeSet := True\<rparr>)"

text \<open>
  The alarm setters take no driver: their bodies call none. Neither do
  \<open>getAlarmMonth\<close> and \<open>getAlarmYear\<close> above.
\<close>

definition setAlarmSubSeconds :: "u32 \<Rightarrow> 'hw STM32RTC \<Rightarrow> 'hw STM32RTC" where
  "setAlarmSubSeconds subSeconds s =
     (if subSeconds < 1000 then s\<lparr>m_alarmSubSeconds := subSeconds\<rparr> else s)"

definition setAlarmSeconds :: "u8 \<Rightarrow> 'hw STM32RTC \<Rightarrow> 'hw STM32RTC" where
  "setAlarmSeconds seconds s = (if seconds < 60 then s\<lparr>m_alarmSeconds := seconds\<rparr> else s)"

definition setAlarmMinutes :: "u8 \<Rightarrow> 'hw STM32RTC \<Rightarrow> 'hw STM32RTC" where
  "setAlarmMinutes minutes s = (if minutes < 60 then s\<lparr>m_alarmMinutes := minutes\<rparr> else s)"

definition setAlarmHours :: "u8 \<Rightarrow> AM_PM \<Rightarrow> 'hw STM32RTC \<Rightarrow> 'hw STM32RTC" where
  "setAlarmHours hours period s =
     (let s = (if hours < 24 then s\<lparr>m_alarmHours := hours\<rparr> else s)
      in if m_format s = HOUR_12 then s\<lparr>m_alarmPeriod := period\<rparr> else s)"

definition setAlarmTime :: "u8 \<Rightarrow> u8 \<Rightarrow> u8 \<Rightarrow> u32 \<Rightarrow> AM_PM \<Rightarrow> 'hw STM32RTC \<Rightarrow> 'hw STM32RTC" where
  "setAlarmTime hours minutes seconds subSeconds period s =
     (let s = setAlarmHours hours period s;
          s = setAlarmMinutes minutes s;
          s = setAlarmSeconds seconds s
      in setAlarmSubSeconds subSeconds s)"

definition setAlarmDay :: "u8 \<Rightarrow> 'hw STM32RTC \<Rightarrow> 'hw STM32RTC" where
  "setAlarmDay day s = (if day \<ge> 1 \<and> day \<le> 31 then s\<lparr>m_alarmDay := day\<rparr> else s)"

definition setAlarmMonth :: "u8 \<Rightarrow> 'hw STM32RTC \<Rightarrow> 'hw STM32RTC" where
  "setAlarmMonth month s = s"

definition setAlarmYear :: "u8 \<Rightarrow> 'hw STM32RTC \<Rightarrow> 'hw STM32RTC" where
  "setAlarmYear year s = s"

definition setAlarmDate :: "u8 \<Rightarrow> u8 \<Rightarrow> u8 \<Rightarrow> 'hw STM32RTC \<Rightarrow> 'hw STM32RTC" where
  "setAlarmDate day month year s = setAlarmDay day s"

section \<open>The C library's calendar conversions\<close>

text \<open>
  Modelled from the spec: \<^verbatim>\<open>gmtime\<close> and \<^verbatim>\<open>mktime\<close> belong to the C library, which is not
  among the sources. The spec calls them "the standard UTC Gregorian-calendar
  decomposition (gmtime) and recomposition (mktime)", and so they are modelled: the
  proleptic Gregorian calendar, counted from 1 January 1970, a Thursday, with no time
  zone and no daylight saving (the library's local time is UTC on the target).
  \<^verbatim>\<open>time_t\<close> is an \<open>int\<close>: it holds every \<^verbatim>\<open>uint32_t\<close>. \<open>gmtime\<close> is
  meant for \<open>t \<ge> 0\<close> only, which is all a \<^verbatim>\<open>uint32_t\<close> gives.
\<close>

definition is_leap :: "int \<Rightarrow> bool" where
  "is_leap y \<longleftrightarrow> y mod 4 = 0 \<and> (y mod 100 \<noteq> 0 \<or> y mod 400 = 0)"

definition days_in_year :: "int \<Rightarrow> int" where
  "days_in_year y = (if is_leap y then 366 else 365)"

text \<open>Months are numbered from 0, as in \<open>tm_mon\<close>.\<close>

definition days_in_month :: "int \<Rightarrow> int \<Rightarrow> int" where
  "days_in_month y m =
     (if m = 1 then (if is_leap y then 29 else 28)
      else if m = 3 \<or> m = 5 \<or> m = 8 \<or> m = 10 then 30 else 31)"

text \<open>
  \<open>year_of_days y d\<close>: the year that day \<open>d\<close> of the years from \<open>y\<close> on falls in, and the
  day within that year. \<open>month_of_days\<close> does the same for the months of one year.
\<close>

function year_of_days :: "int \<Rightarrow> int \<Rightarrow> int \<times> int" where
  "year_of_days y d =
     (if d < days_in_year y then (y, d) else year_of_days (y + 1) (d - days_in_year y))"
  by pat_completeness auto
termination
  by (relation "measure (\<lambda>(y, d). nat d)") (auto simp: days_in_year_def split: if_splits)

function month_of_days :: "int \<Rightarrow> int \<Rightarrow> int \<Rightarrow> int \<times> int" where
  "month_of_days y m d =
     (if 11 \<le> m \<or> d < days_in_month y m then (m, d)
      else month_of_days y (m + 1) (d - days_in_month y m))"
  by pat_completeness auto
termination
  by (relation "measure (\<lambda>(y, m, d). nat (11 - m))") auto

definition gmtime :: "int \<Rightarrow> tm" where
  "gmtime t =
     (let days = t div 86400;
          rem = t mod 86400;
          (y, yday) = year_of_days 1970 days;
          (mon, mday) = month_of_days y 0 yday
      in \<lparr>tm_sec = rem mod 60, tm_min = rem div 60 mod 60, tm_hour = rem div 3600,
          tm_mday = mday + 1, tm_mon = mon, tm_year = y - 1900,
          tm_wday = (days + 4) mod 7, tm_yday = yday, tm_isdst = 0\<rparr>)"

text \<open>
  \<open>days_before_year y\<close>: the days from 1 January 1970 to 1 January of year \<open>y\<close>;
  \<open>days_before_month y m\<close>: the days of year \<open>y\<close> before its month \<open>m\<close>.
\<close>

function days_before_year :: "int \<Rightarrow> int" where
  "days_before_year y =
     (if y = 1970 then 0
      else if 1970 < y then days_before_year (y - 1) + days_in_year (y - 1)
      else days_before_year (y + 1) - days_in_year y)"
  by pat_completeness auto
termination
  by (relation "measure (\<lambda>y. nat \<bar>y - 1970\<bar>)") auto

function days_before_month :: "int \<Rightarrow> int \<Rightarrow> int" where
  "days_before_month y m =
     (if m \<le> 0 then 0 else days_before_month y (m - 1) + days_in_month y (m - 1))"
  by pat_completeness auto
termination
  by (relation "measure (\<lambda>(y, m). nat m)") auto

text \<open>
  \<open>mktime\<close> reads \<open>tm_sec\<close>, \<open>tm_min\<close>, \<open>tm_hour\<close>, \<open>tm_mday\<close>, \<open>tm_mon\<close> and \<open>tm_year\<close>, none of
  which need be in its usual range: a month outside 0..11 moves the year, and the rest
  is added up.
\<close>

definition mktime :: "tm \<Rightarrow> int" where
  "mktime t =
     (let y = tm_year t + 1900 + tm_mon t div 12;
          m = tm_mon t mod 12;
          days = days_before_year y + days_before_month y m + (tm_mday t - 1)
      in days * 86400 + tm_hour t * 3600 + tm_min t * 60 + tm_sec t)"

section \<open>Epoch functions\<close>

text \<open>
  \<^verbatim>\<open>getEpoch(uint32_t *subSeconds)\<close> returns the epoch; the second component is what a
  non-null \<^verbatim>\<open>subSeconds\<close> receives. \<^verbatim>\<open>mktime\<close>'s \<^verbatim>\<open>time_t\<close> is cut to \<^verbatim>\<open>uint32_t\<close> on return.
\<close>

definition getEpoch :: "'hw platform \<Rightarrow> 'hw STM32RTC \<Rightarrow> (u32 \<times> u32) \<times> 'hw STM32RTC" where
  "getEpoch env s =
     (let s = syncDate env s;
          s = syncTime env s;
          t = \<lparr>tm_sec = uint (m_seconds s), tm_min = uint (m_minutes s),
               tm_hour = uint (m_hours s), tm_mday = uint (m_day s),
               tm_mon = uint (m_month s) - 1,
               tm_year = uint (m_year s) + EPOCH_TIME_YEAR_OFF,
               tm_wday = 0, tm_yday = 0, tm_isdst = - 1\<rparr>
      in ((word_of_int (mktime t), m_subSeconds s), s))"

definition getY2kEpoch :: "'hw platform \<Rightarrow> 'hw STM32RTC \<Rightarrow> u32 \<times> 'hw STM32RTC" where
  "getY2kEpoch env s =
     (case getEpoch env s of ((epoch, _), s) \<Rightarrow> (epoch - EPOCH_TIME_OFF, s))"

text \<open>
  \<^verbatim>\<open>setAlarmEpoch\<close> calls \<^verbatim>\<open>setAlarmHours\<close> with one argument: the period is the header's
  default. The \<^verbatim>\<open>int\<close> fields of \<^verbatim>\<open>struct tm\<close> are cut to \<^verbatim>\<open>uint8_t\<close>.
\<close>

definition setAlarmEpoch ::
  "'hw platform \<Rightarrow> u32 \<Rightarrow> Alarm_Match \<Rightarrow> u32 \<Rightarrow> 'hw STM32RTC \<Rightarrow> 'hw STM32RTC" where
  "setAlarmEpoch env ts match subSeconds s =
     (let ts = (if ts < EPOCH_TIME_OFF then EPOCH_TIME_OFF else ts);
          tmp = gmtime (uint ts);
          s = setAlarmDay (word_of_int (tm_mday tmp)) s;
          s = setAlarmHours (word_of_int (tm_hour tmp)) (default_period env) s;
          s = setAlarmMinutes (word_of_int (tm_min tmp)) s;
          s = setAlarmSeconds (word_of_int (tm_sec tmp)) s;
          s = setAlarmSubSeconds subSeconds s
      in enableAlarm env match s)"

definition setEpoch :: "'hw platform \<Rightarrow> u32 \<Rightarrow> u32 \<Rightarrow> 'hw STM32RTC \<Rightarrow> 'hw STM32RTC" where
  "setEpoch env ts subSeconds s =
     (let ts = (if ts < EPOCH_TIME_OFF then EPOCH_TIME_OFF else ts);
          tmp = gmtime (uint ts);
          s = s\<lparr>m_year := word_of_int (tm_year tmp - EPOCH_TIME_YEAR_OFF)\<rparr>;
          s = s\<lparr>m_month := word_of_int (tm_mon tmp + 1)\<rparr>;
          s = s\<lparr>m_day := word_of_int (tm_mday tmp)\<rparr>;
          s = (if tm_wday tmp = 0 then s\<lparr>m_wday := RTC_WEEKDAY_SUNDAY env\<rparr>
               else s\<lparr>m_wday := word_of_int (tm_wday tmp)\<rparr>);
          s = s\<lparr>m_hours := word_of_int (tm_hour tmp)\<rparr>;
          s = s\<lparr>m_minutes := word_of_int (tm_min tmp)\<rparr>;
          s = s\<lparr>m_seconds := word_of_int (tm_sec tmp)\<rparr>;
          s = s\<lparr>m_subSeconds := subSeconds\<rparr>;
          s = call_RTC_SetDate env s;
          s = call_RTC_SetTime env s
      in s\<lparr>s_timeSet := True\<rparr>)"

text \<open>\<^verbatim>\<open>setY2kEpoch\<close> calls \<^verbatim>\<open>setEpoch\<close> with one argument: \<open>subSeconds\<close> is the header's default.\<close>

definition setY2kEpoch :: "'hw platform \<Rightarrow> u32 \<Rightarrow> 'hw STM32RTC \<Rightarrow> 'hw STM32RTC" where
  "setY2kEpoch env ts s = setEpoch env (ts + EPOCH_TIME_OFF) (default_subSeconds env) s"

section \<open>Predicates of the properties\<close>

text \<open>The ranges of the cached time and date fields.\<close>

definition in_range :: "'hw STM32RTC \<Rightarrow> bool" where
  "in_range s \<longleftrightarrow>
     m_seconds s < 60 \<and> m_minutes s < 60 \<and> m_hours s < 24 \<and> m_subSeconds s < 1000 \<and>
     1 \<le> m_day s \<and> m_day s \<le> 31 \<and> 1 \<le> m_month s \<and> m_month s \<le> 12 \<and> m_year s < 100"

text \<open>
  \<open>wrote_time env s0 s\<close>: the hardware of \<open>s\<close> is the hardware of \<open>s0\<close> after a call of
  \<open>RTC_SetTime\<close> with the time fields cached in \<open>s\<close>; \<open>wrote_date\<close> likewise.
\<close>

definition wrote_time :: "'hw platform \<Rightarrow> 'hw STM32RTC \<Rightarrow> 'hw STM32RTC \<Rightarrow> bool" where
  "wrote_time env s0 s \<longleftrightarrow>
     hw s = RTC_SetTime env (m_hours s) (m_minutes s) (m_seconds s) (m_subSeconds s)
              (if m_hoursPeriod s = AM then HOUR_AM else HOUR_PM) (hw s0)"

definition wrote_date :: "'hw platform \<Rightarrow> 'hw STM32RTC \<Rightarrow> 'hw STM32RTC \<Rightarrow> bool" where
  "wrote_date env s0 s \<longleftrightarrow>
     hw s = RTC_SetDate env (m_year s) (m_month s) (m_day s) (m_wday s) (hw s0)"

text \<open>
  A driver reads back an in-range date and time: when \<open>RTC_SetDate\<close> and then
  \<open>RTC_SetTime\<close> are called with arguments in their ranges (year 0..99, month 1..12,
  day 1..31, weekday 1..7, hours 0..23, minutes and seconds 0..59, subseconds 0..999),
  \<open>RTC_GetDate\<close> returns that year, month and day, and \<open>RTC_GetTime\<close>, called next,
  those hours, minutes and seconds (the clock has not ticked in between). Nothing is
  asked of the driver for arguments out of range, nor of the weekday and the subseconds
  it returns.
\<close>

definition reads_back_in_range :: "'hw platform \<Rightarrow> bool" where
  "reads_back_in_range env \<longleftrightarrow>
     (\<forall>y mo d w h mi se ss p h0 cd ct.
        y < 100 \<longrightarrow> 1 \<le> mo \<longrightarrow> mo \<le> 12 \<longrightarrow> 1 \<le> d \<longrightarrow> d \<le> 31 \<longrightarrow> 1 \<le> w \<longrightarrow> w \<le> 7 \<longrightarrow>
        h < 24 \<longrightarrow> mi < 60 \<longrightarrow> se < 60 \<longrightarrow> ss < 1000 \<longrightarrow>
        (case RTC_GetDate env cd (RTC_SetTime env h mi se ss p (RTC_SetDate env y mo d w h0)) of
           ((y', mo', d', w'), h1) \<Rightarrow>
             y' = y \<and> mo' = mo \<and> d' = d \<and>
             (case RTC_GetTime env ct h1 of
                ((h', mi', se', ss', p'), h2) \<Rightarrow> h' = h \<and> mi' = mi \<and> se' = se)))"

text \<open>
  A driver keeps the hardware in range, for a condition \<open>ok\<close> on the hardware state: on
  hardware that is \<open>ok\<close> the get functions return in-range values, and every driver
  function leaves the hardware \<open>ok\<close>, the set functions provided their arguments are
  in range.
\<close>

definition driver_in_range :: "'hw platform \<Rightarrow> ('hw \<Rightarrow> bool) \<Rightarrow> bool" where
  "driver_in_range env ok \<longleftrightarrow>
     (\<forall>cur h ho mi se ss p h'. ok h \<longrightarrow> RTC_GetTime env cur h = ((ho, mi, se, ss, p), h') \<longrightarrow>
        ho < 24 \<and> mi < 60 \<and> se < 60 \<and> ss < 1000 \<and> ok h') \<and>
     (\<forall>cur h y mo d w h'. ok h \<longrightarrow> RTC_GetDate env cur h = ((y, mo, d, w), h') \<longrightarrow>
        y < 100 \<and> 1 \<le> mo \<and> mo \<le> 12 \<and> 1 \<le> d \<and> d \<le> 31 \<and> ok h') \<and>
     (\<forall>cur h. ok h \<longrightarrow> ok (snd (RTC_GetAlarm env cur h))) \<and>
     (\<forall>ho mi se ss p h. ok h \<longrightarrow> ho < 24 \<longrightarrow> mi < 60 \<longrightarrow> se < 60 \<longrightarrow> ss < 1000 \<longrightarrow>
        ok (RTC_SetTime env ho mi se ss p h)) \<and>
     (\<forall>y mo d w h. ok h \<longrightarrow> y < 100 \<longrightarrow> 1 \<le> mo \<longrightarrow> mo \<le> 12 \<longrightarrow> 1 \<le> d \<longrightarrow> d \<le> 31 \<longrightarrow>
        ok (RTC_SetDate env y mo d w h)) \<and>
     (\<forall>d ho mi se ss p match h. ok h \<longrightarrow> ok (RTC_StartAlarm env d ho mi se ss p match h)) \<and>
     (\<forall>h. ok h \<longrightarrow> ok (RTC_StopAlarm env h)) \<and>
     (\<forall>format source reset h. ok h \<longrightarrow> ok (snd (RTC_init env format source reset h))) \<and>
     (\<forall>h. ok h \<longrightarrow> ok (RTC_DeInit env h)) \<and>
     (\<forall>source h. ok h \<longrightarrow> ok (RTC_SetClockSource env source h))"

text \<open>The cached fields are in range and the hardware is \<open>ok\<close>.\<close>

definition all_in_range :: "('hw \<Rightarrow> bool) \<Rightarrow> 'hw STM32RTC \<Rightarrow> bool" where
  "all_in_range ok s \<longleftrightarrow> in_range s \<and> ok (hw s)"

section \<open>A driver to run the model on\<close>

text \<open>
  The simplest driver: a register file. The set functions store their arguments, the
  get functions return the registers, the alarm is a flag beside its registers, and
  \<open>RTC_init\<close> reports a reinitialisation when asked to reset. Sunday is 7 and the
  \<open>Alarm_Match\<close> enumerators are bit masks, seconds the lowest bit. The theorems below
  hold for every driver; this one serves to evaluate them on concrete states.
\<close>

record reg_hw =
  r_hours :: u8
  r_minutes :: u8
  r_seconds :: u8
  r_subSeconds :: u32
  r_period :: hourAM_PM_t
  r_year :: u8
  r_month :: u8
  r_day :: u8
  r_wday :: u8
  r_alarmDay :: u8
  r_alarmHours :: u8
  r_alarmMinutes :: u8
  r_alarmSeconds :: u8
  r_alarmSubSeconds :: u32
  r_alarmPeriod :: hourAM_PM_t
  r_alarmMatch :: u8
  r_alarmOn :: bool

definition reg_match_value :: "Alarm_Match \<Rightarrow> u8" where
  "reg_match_value m =
     (case m of MATCH_OFF \<Rightarrow> 0 | MATCH_SS \<Rightarrow> 1 | MATCH_MMSS \<Rightarrow> 3 | MATCH_HHMMSS \<Rightarrow> 7
      | MATCH_DHHMMSS \<Rightarrow> 15 | MATCH_MMDDHHMMSS \<Rightarrow> 31 | MATCH_YYMMDDHHMMSS \<Rightarrow> 63)"

definition reg_platform :: "reg_hw platform" where
  "reg_platform =
     \<lparr>RTC_init = (\<lambda>format source reset h. (reset, h)),
      RTC_DeInit = (\<lambda>h. h),
      RTC_SetClockSource = (\<lambda>source h. h),
      RTC_StartAlarm = (\<lambda>d ho mi se ss p match h.
        h\<lparr>r_alarmDay := d, r_alarmHours := ho, r_alarmMinutes := mi, r_alarmSeconds := se,
          r_alarmSubSeconds := ss, r_alarmPeriod := p, r_alarmMatch := match,
          r_alarmOn := True\<rparr>),
      RTC_StopAlarm = (\<lambda>h. h\<lparr>r_alarmOn := False\<rparr>),
      RTC_GetAlarm = (\<lambda>cur h.
        (((r_alarmDay h, r_alarmHours h, r_alarmMinutes h, r_alarmSeconds h,
           r_alarmSubSeconds h, r_alarmPeriod h), r_alarmMatch h), h)),
      RTC_SetTime = (\<lambda>ho mi se ss p h.
        h\<lparr>r_hours := ho, r_minutes := mi, r_seconds := se, r_subSeconds := ss,
          r_period := p\<rparr>),
      RTC_GetTime = (\<lambda>cur h.
        ((r_hours h, r_minutes h, r_seconds h, r_subSeconds h, r_period h), h)),
      RTC_SetDate = (\<lambda>y mo d w h. h\<lparr>r_year := y, r_month := mo, r_day := d, r_wday := w\<rparr>),
      RTC_GetDate = (\<lambda>cur h. ((r_year h, r_month h, r_day h, r_wday h), h)),
      RTC_WEEKDAY_SUNDAY = 7,
      IS_CLOCK_SOURCE = (\<lambda>source. True),
      Alarm_Match_value = reg_match_value,
      default_period = AM,
      default_subSeconds = 0\<rparr>"

text \<open>The registers of the register file are in range.\<close>

definition reg_ok :: "reg_hw \<Rightarrow> bool" where
  "reg_ok h \<longleftrightarrow>
     r_hours h < 24 \<and> r_minutes h < 60 \<and> r_seconds h < 60 \<and> r_subSeconds h < 1000 \<and>
     r_year h < 100 \<and> 1 \<le> r_month h \<and> r_month h \<le> 12 \<and> 1 \<le> r_day h \<and> r_day h \<le> 31"

text \<open>
  The register file behind a driver that checks what it is given: \<open>RTC_SetDate\<close> and
  \<open>RTC_SetTime\<close> do nothing when an argument is out of range, as a calendar with a
  two-digit year must for a year above 99, and the subseconds register is a counter
  that \<open>RTC_SetTime\<close> does not set.
\<close>

definition checked_platform :: "reg_hw platform" where
  "checked_platform =
     reg_platform
       \<lparr>RTC_SetTime := (\<lambda>ho mi se ss p h.
          if ho < 24 \<and> mi < 60 \<and> se < 60
          then h\<lparr>r_hours := ho, r_minutes := mi, r_seconds := se, r_period := p\<rparr> else h),
        RTC_SetDate := (\<lambda>y mo d w h.
          if y < 100 \<and> 1 \<le> mo \<and> mo \<le> 12 \<and> 1 \<le> d \<and> d \<le> 31 \<and> 1 \<le> w \<and> w \<le> 7
          then h\<lparr>r_year := y, r_month := mo, r_day := d, r_wday := w\<rparr> else h)\<rparr>"

text \<open>
  A state to evaluate on: the hardware shows Tuesday 15 June 2021, 10:20:07.500, and an
  alarm programmed for day 20, 06:30:00, matching hours, minutes and seconds; the
  object's cached fields still hold 1 January 2000, 00:00:00.000.
\<close>

definition demo_hw :: reg_hw where
  "demo_hw =
     \<lparr>r_hours = 10, r_minutes = 20, r_seconds = 7, r_subSeconds = 500, r_period = HOUR_AM,
      r_year = 21, r_month = 6, r_day = 15, r_wday = 2,
      r_alarmDay = 20, r_alarmHours = 6, r_alarmMinutes = 30, r_alarmSeconds = 0,
      r_alarmSubSeconds = 0, r_alarmPeriod = HOUR_AM, r_alarmMatch = 7, r_alarmOn = True\<rparr>"

definition demo_state :: "reg_hw STM32RTC" where
  "demo_state =
     \<lparr>m_format = HOUR_24, m_clockSource = LSI_CLOCK,
      m_hours = 0, m_minutes = 0, m_seconds = 0, m_subSeconds = 0, m_hoursPeriod = AM,
      m_wday = 6, m_day = 1, m_month = 1, m_year = 0,
      m_alarmDay = 1, m_alarmHours = 0, m_alarmMinutes = 0, m_alarmSeconds = 0,
      m_alarmSubSeconds = 0, m_alarmPeriod = AM, m_alarmMatch = MATCH_OFF,
      s_timeSet = False, hw = demo_hw\<rparr>"

section \<open>Proof set-up\<close>

declare year_of_days.simps [simp del] month_of_days.simps [simp del]
  days_before_year.simps [simp del] days_before_month.simps [simp del]

lemmas time_setter_defs =
  setSubSeconds_def setSeconds_def setMinutes_def setHours_def setTime_def

lemmas date_setter_defs =
  setWeekDay_def setDay_def setMonth_def setYear_def setDate_def setDate_weekDay_def

lemmas alarm_setter_defs =
  setAlarmSubSeconds_def setAlarmSeconds_def setAlarmMinutes_def setAlarmHours_def
  setAlarmTime_def setAlarmDay_def setAlarmMonth_def setAlarmYear_def setAlarmDate_def

text \<open>An \<^verbatim>\<open>int\<close> in 0..255 survives the cut to \<^verbatim>\<open>uint8_t\<close>.\<close>

lemma uint_byte_of_int:
  "0 \<le> k \<Longrightarrow> k < 256 \<Longrightarrow> uint (word_of_int k :: u8) = k"
  by (simp add: uint_word_of_int_eq take_bit_int_eq_self)

section \<open>The calendar model: decomposition and recomposition\<close>

text \<open>
  \<open>year_of_days\<close> and \<open>month_of_days\<close> find the year and the month a day count falls in,
  against \<open>days_before_year\<close> and \<open>days_before_month\<close>; hence \<open>mktime\<close> undoes \<open>gmtime\<close>,
  and \<open>gmtime\<close>'s fields are in their calendar ranges.
\<close>

lemma days_in_year_bounds: "365 \<le> days_in_year y \<and> days_in_year y \<le> 366"
  by (simp add: days_in_year_def)

lemma days_in_month_bounds: "28 \<le> days_in_month y m \<and> days_in_month y m \<le> 31"
  by (simp add: days_in_month_def)

lemma days_before_year_next:
  "1970 \<le> y \<Longrightarrow> days_before_year (y + 1) = days_before_year y + days_in_year y"
  by (subst days_before_year.simps) simp

lemma days_before_year_mono:
  assumes "1970 \<le> y" and "y \<le> z"
  shows "days_before_year y \<le> days_before_year z"
  using assms(2)
proof (induction z rule: int_ge_induct)
  case base
  show ?case by simp
next
  case (step i)
  from step.hyps assms(1) have "1970 \<le> i" by simp
  then have "days_before_year (i + 1) = days_before_year i + days_in_year i"
    by (rule days_before_year_next)
  with step.IH days_in_year_bounds [of i] show ?case by simp
qed

lemma year_of_days_sound:
  "1970 \<le> y0 \<Longrightarrow> 0 \<le> d \<Longrightarrow> year_of_days y0 d = (y, r) \<Longrightarrow>
   y0 \<le> y \<and> 0 \<le> r \<and> r < days_in_year y \<and>
   days_before_year y + r = days_before_year y0 + d"
proof (induction y0 d rule: year_of_days.induct)
  case (1 y0 d)
  show ?case
  proof (cases "d < days_in_year y0")
    case True
    with "1.prems" show ?thesis by (simp add: year_of_days.simps [of y0 d])
  next
    case False
    with "1.prems" have rec: "year_of_days (y0 + 1) (d - days_in_year y0) = (y, r)"
      by (simp add: year_of_days.simps [of y0 d])
    from False "1.prems" have "1970 \<le> y0 + 1" "0 \<le> d - days_in_year y0" by simp_all
    from "1.IH" [OF False this rec] days_before_year_next [of y0] "1.prems"
    show ?thesis by simp
  qed
qed

lemma days_before_month_next:
  "0 \<le> m \<Longrightarrow> days_before_month y (m + 1) = days_before_month y m + days_in_month y m"
  by (subst days_before_month.simps) simp

lemma days_before_month_0: "days_before_month y 0 = 0"
  by (simp add: days_before_month.simps)

lemma days_before_month_11:
  "days_before_month y 11 = days_in_year y - 31"
proof -
  have "days_before_month y 11 = days_before_month y (0+1+1+1+1+1+1+1+1+1+1+1)" by simp
  also have "\<dots> = days_in_year y - 31"
    by (simp only: days_before_month_next days_before_month_0)
       (simp add: days_in_month_def days_in_year_def)
  finally show ?thesis .
qed

lemma month_of_days_sound:
  "0 \<le> m0 \<Longrightarrow> m0 \<le> 11 \<Longrightarrow> 0 \<le> d \<Longrightarrow> days_before_month y m0 + d < days_in_year y \<Longrightarrow>
   month_of_days y m0 d = (m, r) \<Longrightarrow>
   m0 \<le> m \<and> m \<le> 11 \<and> 0 \<le> r \<and> r < days_in_month y m \<and>
   days_before_month y m + r = days_before_month y m0 + d"
proof (induction y m0 d rule: month_of_days.induct)
  case (1 y m0 d)
  show ?case
  proof (cases "11 \<le> m0 \<or> d < days_in_month y m0")
    case True
    with "1.prems" have eq: "m = m0" "r = d" by (simp_all add: month_of_days.simps [of y m0 d])
    show ?thesis
    proof (cases "d < days_in_month y m0")
      case True
      with eq "1.prems" show ?thesis by simp
    next
      case False
      with True "1.prems" have "m0 = 11" by simp
      with eq "1.prems" days_before_month_11 [of y] show ?thesis
        by (simp add: days_in_month_def)
    qed
  next
    case False
    with "1.prems" have rec: "month_of_days y (m0 + 1) (d - days_in_month y m0) = (m, r)"
      by (simp add: month_of_days.simps [of y m0 d])
    from False "1.prems" have a: "0 \<le> m0 + 1" "m0 + 1 \<le> 11" "0 \<le> d - days_in_month y m0"
      by simp_all
    from "1.prems" days_before_month_next [of m0 y]
    have b: "days_before_month y (m0 + 1) + (d - days_in_month y m0) < days_in_year y"
      by simp
    from "1.IH" [OF False a b rec] days_before_month_next [of m0 y] "1.prems"
    show ?thesis by simp
  qed
qed


lemma days_before_year_2000: "days_before_year 2000 = 10957"
  by code_simp

lemma days_before_year_2107: "days_before_year 2107 = 50038"
  by code_simp

lemma days_before_year_2100: "days_before_year 2100 = 47482"
  by code_simp

text \<open>The date part of \<open>gmtime\<close>, for a day count \<open>d \<ge> 0\<close>.\<close>

lemma civil_of_days:
  assumes "0 \<le> d"
    and "year_of_days 1970 d = (y, yd)"
    and "month_of_days y 0 yd = (m, md)"
  shows "1970 \<le> y \<and> 0 \<le> m \<and> m \<le> 11 \<and> 0 \<le> md \<and> md < days_in_month y m \<and>
         days_before_year y + days_before_month y m + md = d \<and>
         days_before_year y \<le> d \<and> d < days_before_year (y + 1)"
proof -
  from year_of_days_sound [OF _ assms(1) assms(2)]
  have y: "1970 \<le> y" "0 \<le> yd" "yd < days_in_year y" "days_before_year y + yd = d"
    by (simp_all add: days_before_year.simps [of 1970])
  from month_of_days_sound [OF _ _ y(2) _ assms(3)] y(3)
  have m: "0 \<le> m" "m \<le> 11" "0 \<le> md" "md < days_in_month y m"
    "days_before_month y m + md = yd"
    by (simp_all add: days_before_month_0)
  from y m days_before_year_next [OF y(1)] show ?thesis by simp
qed

lemma time_of_day:
  fixes r :: int
  assumes "0 \<le> r" "r < 86400"
  shows "r div 3600 * 3600 + r div 60 mod 60 * 60 + r mod 60 = r"
    and "0 \<le> r div 3600" and "r div 3600 < 24"
proof -
  have "r div 60 mod 60 = r div 60 - r div 60 div 60 * 60"
    by (simp add: minus_div_mult_eq_mod)
  moreover have "r div 60 div 60 = r div 3600"
    by (simp add: div_mult2_eq [symmetric])
  moreover have "r mod 60 = r - r div 60 * 60"
    by (simp add: minus_div_mult_eq_mod)
  ultimately show "r div 3600 * 3600 + r div 60 mod 60 * 60 + r mod 60 = r" by simp
  from assms show "0 \<le> r div 3600" "r div 3600 < 24" by simp_all
qed


lemma gmtime_unfold:
  assumes "year_of_days 1970 (t div 86400) = (y, yd)"
    and "month_of_days y 0 yd = (m, md)"
  shows "gmtime t =
     \<lparr>tm_sec = t mod 86400 mod 60, tm_min = t mod 86400 div 60 mod 60,
      tm_hour = t mod 86400 div 3600, tm_mday = md + 1, tm_mon = m, tm_year = y - 1900,
      tm_wday = (t div 86400 + 4) mod 7, tm_yday = yd, tm_isdst = 0\<rparr>"
  using assms by (simp add: gmtime_def Let_def)

lemma gmtime_fields:
  assumes "0 \<le> t"
  shows "0 \<le> tm_sec (gmtime t) \<and> tm_sec (gmtime t) < 60 \<and>
         0 \<le> tm_min (gmtime t) \<and> tm_min (gmtime t) < 60 \<and>
         0 \<le> tm_hour (gmtime t) \<and> tm_hour (gmtime t) < 24 \<and>
         1 \<le> tm_mday (gmtime t) \<and> tm_mday (gmtime t) \<le> 31 \<and>
         0 \<le> tm_mon (gmtime t) \<and> tm_mon (gmtime t) \<le> 11 \<and>
         0 \<le> tm_wday (gmtime t) \<and> tm_wday (gmtime t) \<le> 6 \<and>
         70 \<le> tm_year (gmtime t)"
proof -
  obtain y yd where y: "year_of_days 1970 (t div 86400) = (y, yd)" by fastforce
  obtain m md where m: "month_of_days y 0 yd = (m, md)" by fastforce
  from assms have d: "0 \<le> t div 86400" by simp
  have r: "0 \<le> t mod 86400" "t mod 86400 < 86400" by simp_all
  from civil_of_days [OF d y m] days_in_month_bounds [of y m] time_of_day(2,3) [OF r]
  show ?thesis by (simp add: gmtime_unfold [OF y m])
qed

lemma mktime_gmtime:
  assumes "0 \<le> t"
  shows "mktime (gmtime t) = t"
proof -
  obtain y yd where y: "year_of_days 1970 (t div 86400) = (y, yd)" by fastforce
  obtain m md where m: "month_of_days y 0 yd = (m, md)" by fastforce
  from assms have d: "0 \<le> t div 86400" by simp
  have r: "0 \<le> t mod 86400" "t mod 86400 < 86400" by simp_all
  from civil_of_days [OF d y m]
  have c: "0 \<le> m" "m \<le> 11"
    "days_before_year y + days_before_month y m + md = t div 86400" by simp_all
  from c(1,2) have mm: "m div 12 = 0" "m mod 12 = m" by simp_all
  have "mktime (gmtime t) =
          (days_before_year y + days_before_month y m + md) * 86400 +
          (t mod 86400 div 3600 * 3600 + t mod 86400 div 60 mod 60 * 60 + t mod 86400 mod 60)"
    by (simp add: gmtime_unfold [OF y m] mktime_def Let_def mm)
  also have "\<dots> = t div 86400 * 86400 + t mod 86400"
    by (simp only: c(3) time_of_day(1) [OF r])
  also have "\<dots> = t" by simp
  finally show ?thesis .
qed

lemma gmtime_year_from_2000:
  assumes "946684800 \<le> t"
  shows "100 \<le> tm_year (gmtime t)"
proof -
  obtain y yd where y: "year_of_days 1970 (t div 86400) = (y, yd)" by fastforce
  obtain m md where m: "month_of_days y 0 yd = (m, md)" by fastforce
  from assms have d: "10957 \<le> t div 86400" by simp
  then have d0: "0 \<le> t div 86400" by simp
  from civil_of_days [OF d0 y m]
  have c: "1970 \<le> y" "t div 86400 < days_before_year (y + 1)" by simp_all
  have "2000 \<le> y"
  proof (rule ccontr)
    assume "\<not> 2000 \<le> y"
    then have "y + 1 \<le> 2000" by simp
    with c(1) have "days_before_year (y + 1) \<le> days_before_year 2000"
      by (intro days_before_year_mono) simp_all
    with c(2) d show False by (simp add: days_before_year_2000)
  qed
  then show ?thesis by (simp add: gmtime_unfold [OF y m])
qed

lemma gmtime_year_before:
  assumes "0 \<le> t" and "1970 \<le> z" and "t div 86400 < days_before_year z"
  shows "tm_year (gmtime t) < z - 1900"
proof -
  obtain y yd where y: "year_of_days 1970 (t div 86400) = (y, yd)" by fastforce
  obtain m md where m: "month_of_days y 0 yd = (m, md)" by fastforce
  from assms have d0: "0 \<le> t div 86400" by simp
  from civil_of_days [OF d0 y m]
  have c: "1970 \<le> y" "days_before_year y \<le> t div 86400" by simp_all
  have "y < z"
  proof (rule ccontr)
    assume "\<not> y < z"
    then have "z \<le> y" by simp
    with assms(2) have "days_before_year z \<le> days_before_year y"
      by (intro days_before_year_mono) simp_all
    with c(2) assms(3) show False by simp
  qed
  then show ?thesis by (simp add: gmtime_unfold [OF y m])
qed

lemma gmtime_year_u32:
  assumes "0 \<le> t" and "t < 4294967296"
  shows "tm_year (gmtime t) \<le> 206"
proof -
  from assms have "t div 86400 < 50038" by simp
  from gmtime_year_before [OF assms(1) _ this [folded days_before_year_2107]]
  show ?thesis by simp
qed

lemma gmtime_year_before_2100:
  assumes "0 \<le> t" and "t < 4102444800"
  shows "tm_year (gmtime t) \<le> 199"
proof -
  from assms have "t div 86400 < 47482" by simp
  from gmtime_year_before [OF assms(1) _ this [folded days_before_year_2100]]
  show ?thesis by simp
qed

lemma days_before_month_mono:
  assumes "0 \<le> m" and "m \<le> n"
  shows "days_before_month y m \<le> days_before_month y n"
  using assms(2)
proof (induction n rule: int_ge_induct)
  case base
  show ?case by simp
next
  case (step i)
  from step.hyps assms(1) have "0 \<le> i" by simp
  then have "days_before_month y (i + 1) = days_before_month y i + days_in_month y i"
    by (rule days_before_month_next)
  with step.IH days_in_month_bounds [of y i] show ?case by simp
qed

text \<open>\<open>mktime\<close> of fields in range, with a year from 2000 to 2099, lies in those years.\<close>

lemma mktime_in_range_bounds:
  assumes "100 \<le> tm_year t" "tm_year t \<le> 199" "0 \<le> tm_mon t" "tm_mon t \<le> 11"
    "1 \<le> tm_mday t" "tm_mday t \<le> 31" "0 \<le> tm_hour t" "tm_hour t < 24"
    "0 \<le> tm_min t" "tm_min t < 60" "0 \<le> tm_sec t" "tm_sec t < 60"
  shows "946684800 \<le> mktime t \<and> mktime t < 4102444800"
proof -
  define y where "y = tm_year t + 1900"
  define m where "m = tm_mon t"
  from assms(3,4) have mm: "tm_mon t div 12 = 0" "tm_mon t mod 12 = m" by (simp_all add: m_def)
  from assms(1,2) have yr: "1970 \<le> y" "2000 \<le> y" "y + 1 \<le> 2100" by (simp_all add: y_def)
  have lo: "10957 \<le> days_before_year y"
    using days_before_year_mono [of 2000 y] yr by (simp add: days_before_year_2000)
  have hi: "days_before_year (y + 1) \<le> 47482"
    using days_before_year_mono [of "y + 1" 2100] yr by (simp add: days_before_year_2100)
  have m0: "0 \<le> days_before_month y m"
    using days_before_month_mono [of 0 m y] assms(3) by (simp add: m_def days_before_month_0)
  have m11: "days_before_month y m \<le> days_in_year y - 31"
    using days_before_month_mono [of m 11 y] assms(3,4) by (simp add: m_def days_before_month_11)
  define days where "days = days_before_year y + days_before_month y m + (tm_mday t - 1)"
  from lo m0 assms(5) have dl: "10957 \<le> days" by (simp add: days_def)
  from hi m11 assms(6) days_before_year_next [OF yr(1)] have dh: "days \<le> 47481"
    by (simp add: days_def)
  have eq: "mktime t = days * 86400 + tm_hour t * 3600 + tm_min t * 60 + tm_sec t"
    by (simp add: mktime_def Let_def mm days_def y_def)
  from dl dh assms(7-12) show ?thesis unfolding eq by simp
qed

section \<open>The calendar model on concrete dates\<close>

text \<open>
  946684800 is Saturday 1 January 2000, 00:00:00; 4102444800 is Friday 1 January 2100,
  00:00:00; 1623752407 is Tuesday 15 June 2021, 10:20:07, and 1623715200 the midnight
  before it; 2000000000 is Wednesday 18 May 2033, 03:33:20.
\<close>

lemma gmtime_Y2K:
  "gmtime 946684800 =
     \<lparr>tm_sec = 0, tm_min = 0, tm_hour = 0, tm_mday = 1, tm_mon = 0, tm_year = 100,
      tm_wday = 6, tm_yday = 0, tm_isdst = 0\<rparr>"
  by code_simp

lemma gmtime_2100:
  "gmtime 4102444800 =
     \<lparr>tm_sec = 0, tm_min = 0, tm_hour = 0, tm_mday = 1, tm_mon = 0, tm_year = 200,
      tm_wday = 5, tm_yday = 0, tm_isdst = 0\<rparr>"
  by code_simp

lemma gmtime_demo:
  "gmtime 1623752407 =
     \<lparr>tm_sec = 7, tm_min = 20, tm_hour = 10, tm_mday = 15, tm_mon = 5, tm_year = 121,
      tm_wday = 2, tm_yday = 165, tm_isdst = 0\<rparr>"
  by code_simp

lemma gmtime_2033:
  "gmtime 2000000000 =
     \<lparr>tm_sec = 20, tm_min = 33, tm_hour = 3, tm_mday = 18, tm_mon = 4, tm_year = 133,
      tm_wday = 3, tm_yday = 137, tm_isdst = 0\<rparr>"
  by code_simp

lemma mktime_demo:
  "mktime \<lparr>tm_sec = 7, tm_min = 20, tm_hour = 10, tm_mday = 15, tm_mon = 5, tm_year = 121,
           tm_wday = 0, tm_yday = 0, tm_isdst = - 1\<rparr> = 1623752407"
  by code_simp

lemma mktime_demo_midnight:
  "mktime \<lparr>tm_sec = 0, tm_min = 0, tm_hour = 0, tm_mday = 15, tm_mon = 5, tm_year = 121,
           tm_wday = 0, tm_yday = 0, tm_isdst = - 1\<rparr> = 1623715200"
  by code_simp

section \<open>Set accessors and out-of-range input\<close>

text \<open>
  C1, as the claim states it, fails: a set accessor does not clamp. On the register-file
  driver showing 10:20:07 on 15 June, \<open>setSeconds(200)\<close> leaves the cached seconds at 7,
  the value just read from the hardware, not at 59; \<open>setMonth(13)\<close> and \<open>setMonth(0)\<close>
  leave the cached month at 6, not at 12 or 1.
\<close>

theorem setSeconds_setMonth_do_not_clamp:
  "m_seconds (setSeconds reg_platform 200 demo_state) = 7 \<and>
   m_seconds (setSeconds reg_platform 200 demo_state) \<noteq> 59 \<and>
   m_month (setMonth reg_platform 13 demo_state) = 6 \<and>
   m_month (setMonth reg_platform 13 demo_state) \<noteq> 12 \<and>
   m_month (setMonth reg_platform 0 demo_state) = 6 \<and>
   m_month (setMonth reg_platform 0 demo_state) \<noteq> 1"
  by (simp add: setSeconds_def setMonth_def syncTime_def syncDate_def reg_platform_def
      demo_state_def demo_hw_def)

text \<open>
  C1, amended: a set accessor stores an input that is in range and ignores one that is
  not. After a time or date setter the field holds the input if it is in range, and
  otherwise the value that the setter's own \<open>syncTime\<close> or \<open>syncDate\<close> just read from
  the hardware; after an alarm setter the field holds the input if it is in range, and
  otherwise its previous cached value. No input is replaced by a bound of the range.
\<close>

theorem set_accessors_store_or_ignore:
  "m_subSeconds (setSubSeconds env subSeconds s) =
     (if subSeconds < 1000 then subSeconds else m_subSeconds (syncTime env s)) \<and>
   m_seconds (setSeconds env seconds s) =
     (if seconds < 60 then seconds else m_seconds (syncTime env s)) \<and>
   m_minutes (setMinutes env minutes s) =
     (if minutes < 60 then minutes else m_minutes (syncTime env s)) \<and>
   m_hours (setHours env hours period s) =
     (if hours < 24 then hours else m_hours (syncTime env s)) \<and>
   m_subSeconds (setTime env hours minutes seconds subSeconds period s) =
     (if subSeconds < 1000 then subSeconds else m_subSeconds (syncTime env s)) \<and>
   m_seconds (setTime env hours minutes seconds subSeconds period s) =
     (if seconds < 60 then seconds else m_seconds (syncTime env s)) \<and>
   m_minutes (setTime env hours minutes seconds subSeconds period s) =
     (if minutes < 60 then minutes else m_minutes (syncTime env s)) \<and>
   m_hours (setTime env hours minutes seconds subSeconds period s) =
     (if hours < 24 then hours else m_hours (syncTime env s)) \<and>
   m_wday (setWeekDay env weekDay s) =
     (if 1 \<le> weekDay \<and> weekDay \<le> 7 then weekDay else m_wday (syncDate env s)) \<and>
   m_day (setDay env day s) =
     (if 1 \<le> day \<and> day \<le> 31 then day else m_day (syncDate env s)) \<and>
   m_month (setMonth env month s) =
     (if 1 \<le> month \<and> month \<le> 12 then month else m_month (syncDate env s)) \<and>
   m_year (setYear env year s) =
     (if year < 100 then year else m_year (syncDate env s)) \<and>
   m_day (setDate env day month year s) =
     (if 1 \<le> day \<and> day \<le> 31 then day else m_day (syncDate env s)) \<and>
   m_month (setDate env day month year s) =
     (if 1 \<le> month \<and> month \<le> 12 then month else m_month (syncDate env s)) \<and>
   m_year (setDate env day month year s) =
     (if year < 100 then year else m_year (syncDate env s)) \<and>
   m_wday (setDate_weekDay env weekDay day month year s) =
     (if 1 \<le> weekDay \<and> weekDay \<le> 7 then weekDay else m_wday (syncDate env s)) \<and>
   m_day (setDate_weekDay env weekDay day month year s) =
     (if 1 \<le> day \<and> day \<le> 31 then day else m_day (syncDate env s)) \<and>
   m_month (setDate_weekDay env weekDay day month year s) =
     (if 1 \<le> month \<and> month \<le> 12 then month else m_month (syncDate env s)) \<and>
   m_year (setDate_weekDay env weekDay day month year s) =
     (if year < 100 then year else m_year (syncDate env s)) \<and>
   m_alarmSubSeconds (setAlarmSubSeconds subSeconds s) =
     (if subSeconds < 1000 then subSeconds else m_alarmSubSeconds s) \<and>
   m_alarmSeconds (setAlarmSeconds seconds s) =
     (if seconds < 60 then seconds else m_alarmSeconds s) \<and>
   m_alarmMinutes (setAlarmMinutes minutes s) =
     (if minutes < 60 then minutes else m_alarmMinutes s) \<and>
   m_alarmHours (setAlarmHours hours period s) =
     (if hours < 24 then hours else m_alarmHours s) \<and>
   m_alarmDay (setAlarmDay day s) =
     (if 1 \<le> day \<and> day \<le> 31 then day else m_alarmDay s)"
  by (intro conjI; auto simp add: time_setter_defs date_setter_defs alarm_setter_defs Let_def)

section \<open>Writing through to the hardware\<close>

text \<open>
  C2, as the claim states it, fails for the alarm set accessors: they call no driver
  function. After \<open>setAlarmSeconds(45)\<close> the cached alarm seconds are 45, the hardware is
  what it was, its alarm seconds register still holds 0, and \<open>getAlarmSeconds\<close>, which
  reads the hardware, returns 0.
\<close>

theorem setAlarmSeconds_not_written_through:
  "m_alarmSeconds (setAlarmSeconds 45 demo_state) = 45 \<and>
   hw (setAlarmSeconds 45 demo_state) = demo_hw \<and>
   r_alarmSeconds (hw (setAlarmSeconds 45 demo_state)) = 0 \<and>
   fst (getAlarmSeconds reg_platform (setAlarmSeconds 45 demo_state)) = 0"
  by (simp add: setAlarmSeconds_def getAlarmSeconds_def syncAlarmTime_def reg_platform_def
      demo_state_def demo_hw_def)

text \<open>
  C2, amended: every time set accessor ends with \<open>RTC_SetTime\<close> on the cached time
  fields it leaves behind, and every date set accessor with \<open>RTC_SetDate\<close> on the cached
  date fields it leaves behind, applied to the hardware as the setter's own
  synchronisation left it. The alarm set accessors (\<open>setAlarmSubSeconds\<close>,
  \<open>setAlarmSeconds\<close>, \<open>setAlarmMinutes\<close>, \<open>setAlarmHours\<close>, \<open>setAlarmTime\<close>, \<open>setAlarmDay\<close>,
  \<open>setAlarmDate\<close>) leave the hardware untouched: the cached alarm fields reach the
  hardware through \<open>enableAlarm\<close> (C8).
\<close>

theorem setters_write_through_alarm_setters_do_not:
  "wrote_time env (syncTime env s) (setSubSeconds env subSeconds s) \<and>
   wrote_time env (syncTime env s) (setSeconds env seconds s) \<and>
   wrote_time env (syncTime env s) (setMinutes env minutes s) \<and>
   wrote_time env (syncTime env s) (setHours env hours period s) \<and>
   wrote_time env (syncTime env s) (setTime env hours minutes seconds subSeconds period s) \<and>
   wrote_date env (syncDate env s) (setWeekDay env weekDay s) \<and>
   wrote_date env (syncDate env s) (setDay env day s) \<and>
   wrote_date env (syncDate env s) (setMonth env month s) \<and>
   wrote_date env (syncDate env s) (setYear env year s) \<and>
   wrote_date env (syncDate env s) (setDate env day month year s) \<and>
   wrote_date env (syncDate env s) (setDate_weekDay env weekDay day month year s) \<and>
   hw (setAlarmSubSeconds subSeconds s) = hw s \<and>
   hw (setAlarmSeconds seconds s) = hw s \<and>
   hw (setAlarmMinutes minutes s) = hw s \<and>
   hw (setAlarmHours hours period s) = hw s \<and>
   hw (setAlarmTime hours minutes seconds subSeconds period s) = hw s \<and>
   hw (setAlarmDay day s) = hw s \<and>
   hw (setAlarmDate day month year s) = hw s"
  by (intro conjI; simp add: wrote_time_def wrote_date_def time_setter_defs date_setter_defs
      alarm_setter_defs Let_def)

section \<open>Get accessors\<close>

text \<open>
  C3, as the claim states it, fails for \<open>getAlarmMonth\<close> and \<open>getAlarmYear\<close>: they return
  the constant 0 and read no hardware. On the state whose hardware holds an alarm for
  day 20 and whose cached alarm day is 1, both leave the state as it is (the cached
  alarm day stays 1), which is not the synchronised state; and the answer is 0 on a
  different hardware too.
\<close>

theorem getAlarmMonth_Year_do_not_sync:
  "getAlarmMonth demo_state = (0, demo_state) \<and>
   getAlarmYear demo_state = (0, demo_state) \<and>
   m_alarmDay (snd (getAlarmMonth demo_state)) = 1 \<and>
   m_alarmDay (syncAlarmTime reg_platform demo_state) = 20 \<and>
   snd (getAlarmMonth demo_state) \<noteq> syncAlarmTime reg_platform demo_state \<and>
   snd (getAlarmYear demo_state) \<noteq> syncAlarmTime reg_platform demo_state \<and>
   getAlarmMonth (demo_state\<lparr>hw := demo_hw\<lparr>r_month := 7\<rparr>\<rparr>) =
     (0, demo_state\<lparr>hw := demo_hw\<lparr>r_month := 7\<rparr>\<rparr>)"
  by (simp add: getAlarmMonth_def getAlarmYear_def syncAlarmTime_def reg_platform_def
      demo_state_def demo_hw_def)

text \<open>
  C3, amended: every time, date and alarm get accessor other than \<open>getAlarmMonth\<close> and
  \<open>getAlarmYear\<close> first synchronises (\<open>syncTime\<close>, \<open>syncDate\<close> or \<open>syncAlarmTime\<close>) and
  returns the field of the synchronised state, whose fields are what the driver's
  \<open>RTC_GetTime\<close>, \<open>RTC_GetDate\<close> or \<open>RTC_GetAlarm\<close> delivered on that call;
  \<open>getAlarmMonth\<close> and \<open>getAlarmYear\<close> return 0 and leave the state unchanged.
\<close>

theorem get_accessors_sync_first:
  "getSubSeconds env s = (m_subSeconds (syncTime env s), syncTime env s) \<and>
   getSeconds env s = (m_seconds (syncTime env s), syncTime env s) \<and>
   getMinutes env s = (m_minutes (syncTime env s), syncTime env s) \<and>
   getHours env s = ((m_hours (syncTime env s), m_hoursPeriod (syncTime env s)), syncTime env s) \<and>
   getTime env s =
     ((m_hours (syncTime env s), m_minutes (syncTime env s), m_seconds (syncTime env s),
       m_subSeconds (syncTime env s), m_hoursPeriod (syncTime env s)), syncTime env s) \<and>
   getWeekDay env s = (m_wday (syncDate env s), syncDate env s) \<and>
   getDay env s = (m_day (syncDate env s), syncDate env s) \<and>
   getMonth env s = (m_month (syncDate env s), syncDate env s) \<and>
   getYear env s = (m_year (syncDate env s), syncDate env s) \<and>
   getDate env s =
     ((m_wday (syncDate env s), m_day (syncDate env s), m_month (syncDate env s),
       m_year (syncDate env s)), syncDate env s) \<and>
   getAlarmSubSeconds env s = (m_alarmSubSeconds (syncAlarmTime env s), syncAlarmTime env s) \<and>
   getAlarmSeconds env s = (m_alarmSeconds (syncAlarmTime env s), syncAlarmTime env s) \<and>
   getAlarmMinutes env s = (m_alarmMinutes (syncAlarmTime env s), syncAlarmTime env s) \<and>
   getAlarmHours env s =
     ((m_alarmHours (syncAlarmTime env s), m_alarmPeriod (syncAlarmTime env s)),
      syncAlarmTime env s) \<and>
   getAlarmDay env s = (m_alarmDay (syncAlarmTime env s), syncAlarmTime env s) \<and>
   getAlarmMonth s = (0, s) \<and>
   getAlarmYear s = (0, s) \<and>
   (case RTC_GetTime env (m_hours s, m_minutes s, m_seconds s, m_subSeconds s, HOUR_AM) (hw s) of
      ((h, mi, se, ss, p), h') \<Rightarrow>
        m_hours (syncTime env s) = h \<and> m_minutes (syncTime env s) = mi \<and>
        m_seconds (syncTime env s) = se \<and> m_subSeconds (syncTime env s) = ss \<and>
        m_hoursPeriod (syncTime env s) = (if p = HOUR_AM then AM else PM) \<and>
        hw (syncTime env s) = h') \<and>
   (case RTC_GetDate env (m_year s, m_month s, m_day s, m_wday s) (hw s) of
      ((y, mo, d, w), h') \<Rightarrow>
        m_year (syncDate env s) = y \<and> m_month (syncDate env s) = mo \<and>
        m_day (syncDate env s) = d \<and> m_wday (syncDate env s) = w \<and>
        hw (syncDate env s) = h') \<and>
   (case RTC_GetAlarm env
           (m_alarmDay s, m_alarmHours s, m_alarmMinutes s, m_alarmSeconds s,
            m_alarmSubSeconds s, HOUR_AM) (hw s) of
      (((d, h, mi, se, ss, p), match), h') \<Rightarrow>
        m_alarmDay (syncAlarmTime env s) = d \<and> m_alarmHours (syncAlarmTime env s) = h \<and>
        m_alarmMinutes (syncAlarmTime env s) = mi \<and> m_alarmSeconds (syncAlarmTime env s) = se \<and>
        m_alarmSubSeconds (syncAlarmTime env s) = ss \<and>
        hw (syncAlarmTime env s) = h')"
  by (simp add: getSubSeconds_def getSeconds_def getMinutes_def getHours_def getTime_def
      getWeekDay_def getDay_def getMonth_def getYear_def getDate_def getAlarmSubSeconds_def
      getAlarmSeconds_def getAlarmMinutes_def getAlarmHours_def getAlarmDay_def
      getAlarmMonth_def getAlarmYear_def syncTime_def syncDate_def syncAlarmTime_def
      Let_def split: prod.splits)

section \<open>Range of the cached fields\<close>

text \<open>
  C4: \<open>setEpoch\<close> does not keep the cached fields in range. From a state whose cached
  fields and hardware registers are in range, \<open>setEpoch(946684800, 1000)\<close> leaves the
  cached subseconds at 1000, and \<open>setEpoch(4102444800, 0)\<close> leaves the cached year at
  100.
\<close>

theorem setEpoch_leaves_range:
  "in_range demo_state \<and> reg_ok demo_hw \<and>
   m_subSeconds (setEpoch reg_platform 946684800 1000 demo_state) = 1000 \<and>
   \<not> in_range (setEpoch reg_platform 946684800 1000 demo_state) \<and>
   m_year (setEpoch reg_platform 4102444800 0 demo_state) = 100 \<and>
   \<not> in_range (setEpoch reg_platform 4102444800 0 demo_state)"
  by (simp add: in_range_def reg_ok_def setEpoch_def EPOCH_TIME_OFF_def
      EPOCH_TIME_YEAR_OFF_def gmtime_Y2K gmtime_2100 demo_state_def demo_hw_def)

text \<open>
  The rest of the interface keeps the range. With a driver that keeps the hardware in
  range, the synchronisations, the get accessors, the time, date and alarm set
  accessors, \<open>enableAlarm\<close>, \<open>disableAlarm\<close>, \<open>setAlarmEpoch\<close>, \<open>begin\<close>, \<open>end\<close> and
  \<open>setClockSource\<close> all lead from a state in range to a state in range, and so does
  \<open>setEpoch\<close> when \<open>subSeconds < 1000\<close> and \<open>ts\<close> lies before 1 January 2100. The register
  file is such a driver.
\<close>

lemma reg_platform_in_range: "driver_in_range reg_platform reg_ok"
  by (simp add: driver_in_range_def reg_platform_def reg_ok_def)

lemma driver_in_rangeD:
  assumes "driver_in_range env ok"
  shows "ok h \<Longrightarrow> RTC_GetTime env cur h = ((ho, mi, se, ss, p), h') \<Longrightarrow>
           ho < 24 \<and> mi < 60 \<and> se < 60 \<and> ss < 1000 \<and> ok h'"
    and "ok h \<Longrightarrow> RTC_GetDate env cur' h = ((y, mo, d, w), h') \<Longrightarrow>
           y < 100 \<and> 1 \<le> mo \<and> mo \<le> 12 \<and> 1 \<le> d \<and> d \<le> 31 \<and> ok h'"
    and "ok h \<Longrightarrow> ok (snd (RTC_GetAlarm env cur'' h))"
    and "ok h \<Longrightarrow> ho < 24 \<Longrightarrow> mi < 60 \<Longrightarrow> se < 60 \<Longrightarrow> ss < 1000 \<Longrightarrow>
           ok (RTC_SetTime env ho mi se ss p h)"
    and "ok h \<Longrightarrow> y < 100 \<Longrightarrow> 1 \<le> mo \<Longrightarrow> mo \<le> 12 \<Longrightarrow> 1 \<le> d \<Longrightarrow> d \<le> 31 \<Longrightarrow>
           ok (RTC_SetDate env y mo d w h)"
    and "ok h \<Longrightarrow> ok (RTC_StartAlarm env d ho mi se ss p match h)"
    and "ok h \<Longrightarrow> ok (RTC_StopAlarm env h)"
    and "ok h \<Longrightarrow> ok (snd (RTC_init env format source reset h))"
    and "ok h \<Longrightarrow> ok (RTC_DeInit env h)"
    and "ok h \<Longrightarrow> ok (RTC_SetClockSource env source' h)"
proof -
  note c = assms [unfolded driver_in_range_def]
  note c2 = c [THEN conjunct2]
  note c3 = c2 [THEN conjunct2]
  note c4 = c3 [THEN conjunct2]
  note c5 = c4 [THEN conjunct2]
  note c6 = c5 [THEN conjunct2]
  note c7 = c6 [THEN conjunct2]
  note c8 = c7 [THEN conjunct2]
  note c9 = c8 [THEN conjunct2]
  show "ok h \<Longrightarrow> RTC_GetTime env cur h = ((ho, mi, se, ss, p), h') \<Longrightarrow>
           ho < 24 \<and> mi < 60 \<and> se < 60 \<and> ss < 1000 \<and> ok h'"
    by (rule c [THEN conjunct1, rule_format])
  show "ok h \<Longrightarrow> RTC_GetDate env cur' h = ((y, mo, d, w), h') \<Longrightarrow>
           y < 100 \<and> 1 \<le> mo \<and> mo \<le> 12 \<and> 1 \<le> d \<and> d \<le> 31 \<and> ok h'"
    by (rule c2 [THEN conjunct1, rule_format])
  show "ok h \<Longrightarrow> ok (snd (RTC_GetAlarm env cur'' h))"
    by (rule c3 [THEN conjunct1, rule_format])
  show "ok h \<Longrightarrow> ho < 24 \<Longrightarrow> mi < 60 \<Longrightarrow> se < 60 \<Longrightarrow> ss < 1000 \<Longrightarrow>
           ok (RTC_SetTime env ho mi se ss p h)"
    by (rule c4 [THEN conjunct1, rule_format])
  show "ok h \<Longrightarrow> y < 100 \<Longrightarrow> 1 \<le> mo \<Longrightarrow> mo \<le> 12 \<Longrightarrow> 1 \<le> d \<Longrightarrow> d \<le> 31 \<Longrightarrow>
           ok (RTC_SetDate env y mo d w h)"
    by (rule c5 [THEN conjunct1, rule_format])
  show "ok h \<Longrightarrow> ok (RTC_StartAlarm env d ho mi se ss p match h)"
    by (rule c6 [THEN conjunct1, rule_format])
  show "ok h \<Longrightarrow> ok (RTC_StopAlarm env h)"
    by (rule c7 [THEN conjunct1, rule_format])
  show "ok h \<Longrightarrow> ok (snd (RTC_init env format source reset h))"
    by (rule c8 [THEN conjunct1, rule_format])
  show "ok h \<Longrightarrow> ok (RTC_DeInit env h)"
    by (rule c9 [THEN conjunct1, rule_format])
  show "ok h \<Longrightarrow> ok (RTC_SetClockSource env source' h)"
    by (rule c9 [THEN conjunct2, rule_format])
qed

lemma syncTime_in_range:
  assumes "driver_in_range env ok" and "all_in_range ok s"
  shows "all_in_range ok (syncTime env s)"
proof -
  obtain ho mi se ss p h' where g:
    "RTC_GetTime env (m_hours s, m_minutes s, m_seconds s, m_subSeconds s, HOUR_AM) (hw s) =
       ((ho, mi, se, ss, p), h')"
    by (metis prod.exhaust)
  from assms(2) have "ok (hw s)" by (simp add: all_in_range_def)
  from driver_in_rangeD(1) [OF assms(1) this g] assms(2) show ?thesis
    by (simp add: syncTime_def g all_in_range_def in_range_def)
qed

lemma syncDate_in_range:
  assumes "driver_in_range env ok" and "all_in_range ok s"
  shows "all_in_range ok (syncDate env s)"
proof -
  obtain y mo d w h' where g:
    "RTC_GetDate env (m_year s, m_month s, m_day s, m_wday s) (hw s) = ((y, mo, d, w), h')"
    by (metis prod.exhaust)
  from assms(2) have "ok (hw s)" by (simp add: all_in_range_def)
  from driver_in_rangeD(2) [OF assms(1) this g] assms(2) show ?thesis
    by (simp add: syncDate_def g all_in_range_def in_range_def)
qed

lemma syncAlarmTime_in_range:
  assumes "driver_in_range env ok" and "all_in_range ok s"
  shows "all_in_range ok (syncAlarmTime env s)"
proof -
  from assms(2) have "ok (hw s)" by (simp add: all_in_range_def)
  from driver_in_rangeD(3) [OF assms(1) this] assms(2) show ?thesis
    by (simp add: syncAlarmTime_def all_in_range_def in_range_def split: prod.splits)
       (metis snd_conv)
qed

lemma call_RTC_SetTime_in_range:
  assumes "driver_in_range env ok" and "all_in_range ok s"
  shows "all_in_range ok (call_RTC_SetTime env s)"
proof -
  from assms(2) have r: "ok (hw s)" "m_hours s < 24" "m_minutes s < 60" "m_seconds s < 60"
    "m_subSeconds s < 1000"
    by (simp_all add: all_in_range_def in_range_def)
  from driver_in_rangeD(4) [OF assms(1) r] assms(2) show ?thesis
    by (simp add: all_in_range_def in_range_def)
qed

lemma call_RTC_SetDate_in_range:
  assumes "driver_in_range env ok" and "all_in_range ok s"
  shows "all_in_range ok (call_RTC_SetDate env s)"
proof -
  from assms(2) have r: "ok (hw s)" "m_year s < 100" "1 \<le> m_month s" "m_month s \<le> 12"
    "1 \<le> m_day s" "m_day s \<le> 31"
    by (simp_all add: all_in_range_def in_range_def)
  from driver_in_rangeD(5) [OF assms(1) r] assms(2) show ?thesis
    by (simp add: all_in_range_def in_range_def)
qed

text \<open>Updates that keep the fields in range.\<close>

lemma field_updates_in_range:
  assumes "all_in_range ok s"
  shows "x < 1000 \<Longrightarrow> all_in_range ok (s\<lparr>m_subSeconds := x\<rparr>)"
    and "b < 60 \<Longrightarrow> all_in_range ok (s\<lparr>m_seconds := b\<rparr>)"
    and "b < 60 \<Longrightarrow> all_in_range ok (s\<lparr>m_minutes := b\<rparr>)"
    and "b < 24 \<Longrightarrow> all_in_range ok (s\<lparr>m_hours := b\<rparr>)"
    and "all_in_range ok (s\<lparr>m_hoursPeriod := pe\<rparr>)"
    and "all_in_range ok (s\<lparr>m_wday := b\<rparr>)"
    and "1 \<le> b \<and> b \<le> 31 \<Longrightarrow> all_in_range ok (s\<lparr>m_day := b\<rparr>)"
    and "1 \<le> b \<and> b \<le> 12 \<Longrightarrow> all_in_range ok (s\<lparr>m_month := b\<rparr>)"
    and "b < 100 \<Longrightarrow> all_in_range ok (s\<lparr>m_year := b\<rparr>)"
    and "all_in_range ok (s\<lparr>s_timeSet := tf\<rparr>)"
    and "all_in_range ok (s\<lparr>m_format := fo\<rparr>)"
  using assms by (simp_all add: all_in_range_def in_range_def)

lemmas in_range_steps =
  syncTime_in_range syncDate_in_range syncAlarmTime_in_range
  call_RTC_SetTime_in_range call_RTC_SetDate_in_range field_updates_in_range

lemma time_setters_in_range:
  assumes "driver_in_range env ok" and "all_in_range ok s"
  shows "all_in_range ok (setSubSeconds env subSeconds s)"
    and "all_in_range ok (setSeconds env seconds s)"
    and "all_in_range ok (setMinutes env minutes s)"
    and "all_in_range ok (setHours env hours period s)"
    and "all_in_range ok (setTime env hours minutes seconds subSeconds period s)"
  using assms by (simp_all add: time_setter_defs Let_def in_range_steps)

lemma date_setters_in_range:
  assumes "driver_in_range env ok" and "all_in_range ok s"
  shows "all_in_range ok (setWeekDay env weekDay s)"
    and "all_in_range ok (setDay env day s)"
    and "all_in_range ok (setMonth env month s)"
    and "all_in_range ok (setYear env year s)"
    and "all_in_range ok (setDate env day month year s)"
    and "all_in_range ok (setDate_weekDay env weekDay day month year s)"
  using assms by (simp_all add: date_setter_defs Let_def in_range_steps)

lemma alarm_setters_in_range:
  assumes "all_in_range ok s"
  shows "all_in_range ok (setAlarmSubSeconds subSeconds s)"
    and "all_in_range ok (setAlarmSeconds seconds s)"
    and "all_in_range ok (setAlarmMinutes minutes s)"
    and "all_in_range ok (setAlarmHours hours period s)"
    and "all_in_range ok (setAlarmTime hours minutes seconds subSeconds period s)"
    and "all_in_range ok (setAlarmDay day s)"
    and "all_in_range ok (setAlarmMonth month s)"
    and "all_in_range ok (setAlarmYear year s)"
    and "all_in_range ok (setAlarmDate day month year s)"
  using assms by (simp_all add: alarm_setter_defs Let_def all_in_range_def in_range_def)

lemma getters_in_range:
  assumes "driver_in_range env ok" and "all_in_range ok s"
  shows "all_in_range ok (snd (getSubSeconds env s))"
    and "all_in_range ok (snd (getSeconds env s))"
    and "all_in_range ok (snd (getMinutes env s))"
    and "all_in_range ok (snd (getHours env s))"
    and "all_in_range ok (snd (getTime env s))"
    and "all_in_range ok (snd (getWeekDay env s))"
    and "all_in_range ok (snd (getDay env s))"
    and "all_in_range ok (snd (getMonth env s))"
    and "all_in_range ok (snd (getYear env s))"
    and "all_in_range ok (snd (getDate env s))"
    and "all_in_range ok (snd (getAlarmSubSeconds env s))"
    and "all_in_range ok (snd (getAlarmSeconds env s))"
    and "all_in_range ok (snd (getAlarmMinutes env s))"
    and "all_in_range ok (snd (getAlarmHours env s))"
    and "all_in_range ok (snd (getAlarmDay env s))"
    and "all_in_range ok (snd (getAlarmMonth s))"
    and "all_in_range ok (snd (getAlarmYear s))"
    and "all_in_range ok (snd (getEpoch env s))"
    and "all_in_range ok (snd (getY2kEpoch env s))"
  using assms
  by (simp_all add: getSubSeconds_def getSeconds_def getMinutes_def getHours_def getTime_def
      getWeekDay_def getDay_def getMonth_def getYear_def getDate_def getAlarmSubSeconds_def
      getAlarmSeconds_def getAlarmMinutes_def getAlarmHours_def getAlarmDay_def
      getAlarmMonth_def getAlarmYear_def getEpoch_def getY2kEpoch_def Let_def in_range_steps
      split: prod.splits)

lemma enableAlarm_in_range:
  assumes "driver_in_range env ok" and "all_in_range ok s"
  shows "all_in_range ok (enableAlarm env match s)"
    and "all_in_range ok (disableAlarm env s)"
proof -
  from assms(2) have h: "ok (hw s)" by (simp add: all_in_range_def)
  from driver_in_rangeD(6,7) [OF assms(1) h] assms(2)
  show "all_in_range ok (enableAlarm env match s)"
    by (cases match) (simp_all add: enableAlarm_def all_in_range_def in_range_def)
  from driver_in_rangeD(7) [OF assms(1) h] assms(2)
  show "all_in_range ok (disableAlarm env s)"
    by (simp add: disableAlarm_def all_in_range_def in_range_def)
qed

lemma setAlarmEpoch_in_range:
  assumes "driver_in_range env ok" and "all_in_range ok s"
  shows "all_in_range ok (setAlarmEpoch env ts match subSeconds s)"
  unfolding setAlarmEpoch_def Let_def
  by (intro enableAlarm_in_range(1) [OF assms(1)] alarm_setters_in_range assms(2))

lemma begin_end_in_range:
  assumes "driver_in_range env ok" and "all_in_range ok s"
  shows "all_in_range ok (begin_reset env resetTime format s)"
    and "all_in_range ok (begin_format env format s)"
    and "all_in_range ok (end_rtc env s)"
    and "all_in_range ok (setClockSource env source s)"
    and "all_in_range ok (snd (getClockSource s))"
proof -
  have b: "all_in_range ok (begin_reset env r format s)" for r
  proof -
    define s1 where "s1 = (if r then s\<lparr>s_timeSet := False\<rparr> else s)\<lparr>m_format := format\<rparr>"
    obtain reinit h' where i:
      "RTC_init env (if format = HOUR_12 then HOUR_FORMAT_12 else HOUR_FORMAT_24)
         (sourceClock_of (m_clockSource s1)) r (hw s1) = (reinit, h')"
      by fastforce
    from assms(2) have s1: "all_in_range ok s1"
      by (simp add: s1_def all_in_range_def in_range_def)
    then have h: "ok (hw s1)" by (simp add: all_in_range_def)
    from driver_in_rangeD(8) [OF assms(1) h, of _ _ r] i have h': "ok h'"
      by (metis snd_conv)
    with s1 have s2: "all_in_range ok (s1\<lparr>hw := h'\<rparr>)"
      by (simp add: all_in_range_def in_range_def)
    then have s3: "all_in_range ok (s1\<lparr>hw := h', s_timeSet := False\<rparr>)"
      by (simp add: all_in_range_def in_range_def)
    define s4 where "s4 = syncDate env (syncTime env (s1\<lparr>hw := h', s_timeSet := False\<rparr>))"
    have s4: "all_in_range ok s4"
      unfolding s4_def by (intro syncDate_in_range syncTime_in_range assms(1) s3)
    have eq: "begin_reset env r format s =
       (if reinit then
          s4\<lparr>m_alarmDay := m_day s4, m_alarmHours := m_hours s4,
             m_alarmMinutes := m_minutes s4, m_alarmSeconds := m_seconds s4,
             m_alarmSubSeconds := m_subSeconds s4, m_alarmPeriod := m_hoursPeriod s4\<rparr>
        else s1\<lparr>hw := h', s_timeSet := True\<rparr>)"
      unfolding begin_reset_def Let_def s1_def [symmetric] i s4_def by simp
    from s4 s2 show ?thesis
      unfolding eq by (simp add: all_in_range_def in_range_def)
  qed
  from b show "all_in_range ok (begin_reset env resetTime format s)" .
  from b show "all_in_range ok (begin_format env format s)" by (simp add: begin_format_def)
  from assms(2) have h: "ok (hw s)" by (simp add: all_in_range_def)
  from driver_in_rangeD(9) [OF assms(1) h] assms(2)
  show "all_in_range ok (end_rtc env s)"
    by (simp add: end_rtc_def Let_def all_in_range_def in_range_def)
  from driver_in_rangeD(10) [OF assms(1) h] assms(2)
  show "all_in_range ok (setClockSource env source s)"
    by (simp add: setClockSource_def Let_def all_in_range_def in_range_def)
  from assms(2) show "all_in_range ok (snd (getClockSource s))"
    by (simp add: getClockSource_def)
qed

lemma byte_of_int_less:
  "0 \<le> k \<Longrightarrow> k < 256 \<Longrightarrow> (word_of_int k :: u8) < b \<longleftrightarrow> k < uint b"
  by (simp add: word_less_def uint_byte_of_int)

lemma byte_of_int_le:
  "0 \<le> k \<Longrightarrow> k < 256 \<Longrightarrow> (word_of_int k :: u8) \<le> b \<longleftrightarrow> k \<le> uint b"
  "0 \<le> k \<Longrightarrow> k < 256 \<Longrightarrow> b \<le> (word_of_int k :: u8) \<longleftrightarrow> uint b \<le> k"
  by (simp_all add: word_le_def uint_byte_of_int)

lemma setEpoch_in_range:
  assumes drv: "driver_in_range env ok" and inv: "all_in_range ok s"
    and ts: "ts < 4102444800" and ss: "subSeconds < 1000"
  shows "all_in_range ok (setEpoch env ts subSeconds s)"
proof -
  define ts' where "ts' = (if ts < EPOCH_TIME_OFF then EPOCH_TIME_OFF else ts)"
  define t where "t = gmtime (uint ts')"
  have lo: "946684800 \<le> uint ts'"
    by (simp add: ts'_def EPOCH_TIME_OFF_def word_less_def)
  from ts have hi: "uint ts' < 4102444800"
    by (simp add: ts'_def EPOCH_TIME_OFF_def word_less_def)
  from lo have nn: "0 \<le> uint ts'" by simp
  from gmtime_fields [OF nn] gmtime_year_from_2000 [OF lo] gmtime_year_before_2100 [OF nn hi]
  have f: "0 \<le> tm_sec t" "tm_sec t < 60" "0 \<le> tm_min t" "tm_min t < 60"
    "0 \<le> tm_hour t" "tm_hour t < 24" "1 \<le> tm_mday t" "tm_mday t \<le> 31"
    "0 \<le> tm_mon t" "tm_mon t \<le> 11" "100 \<le> tm_year t" "tm_year t \<le> 199"
    by (simp_all add: t_def)
  define s1 where "s1 =
    s\<lparr>m_year := word_of_int (tm_year t - 100), m_month := word_of_int (tm_mon t + 1),
      m_day := word_of_int (tm_mday t),
      m_wday := (if tm_wday t = 0 then RTC_WEEKDAY_SUNDAY env else word_of_int (tm_wday t)),
      m_hours := word_of_int (tm_hour t), m_minutes := word_of_int (tm_min t),
      m_seconds := word_of_int (tm_sec t), m_subSeconds := subSeconds\<rparr>"
  have y: "(word_of_int (tm_year t - 100) :: u8) < 100"
    using f by (subst byte_of_int_less) simp_all
  have mo: "1 \<le> (word_of_int (tm_mon t + 1) :: u8)" "(word_of_int (tm_mon t + 1) :: u8) \<le> 12"
    using f by (subst byte_of_int_le; simp)+
  have d: "1 \<le> (word_of_int (tm_mday t) :: u8)" "(word_of_int (tm_mday t) :: u8) \<le> 31"
    using f by (subst byte_of_int_le; simp)+
  have h: "(word_of_int (tm_hour t) :: u8) < 24"
    using f by (subst byte_of_int_less) simp_all
  have mi: "(word_of_int (tm_min t) :: u8) < 60"
    using f by (subst byte_of_int_less) simp_all
  have se: "(word_of_int (tm_sec t) :: u8) < 60"
    using f by (subst byte_of_int_less) simp_all
  from inv have "ok (hw s)" by (simp add: all_in_range_def)
  with y mo d h mi se ss have s1: "all_in_range ok s1"
    unfolding s1_def all_in_range_def in_range_def by simp
  have "setEpoch env ts subSeconds s =
          (call_RTC_SetTime env (call_RTC_SetDate env s1))\<lparr>s_timeSet := True\<rparr>"
    by (simp add: setEpoch_def Let_def s1_def t_def ts'_def EPOCH_TIME_YEAR_OFF_def)
  also have "all_in_range ok \<dots>"
    by (intro field_updates_in_range(10) call_RTC_SetTime_in_range call_RTC_SetDate_in_range
        drv s1)
  finally show ?thesis .
qed

lemma setY2kEpoch_in_range:
  assumes "driver_in_range env ok" and "all_in_range ok s"
    and "ts + 946684800 < 4102444800" and "default_subSeconds env < 1000"
  shows "all_in_range ok (setY2kEpoch env ts s)"
  using setEpoch_in_range [OF assms(1,2,3,4)]
  by (simp add: setY2kEpoch_def EPOCH_TIME_OFF_def)

section \<open>Epochs\<close>

text \<open>
  C5: \<open>getY2kEpoch\<close> returns what \<open>getEpoch\<close> returns minus 946684800 and leaves the same
  state, and \<open>setY2kEpoch(ts)\<close> is \<open>setEpoch(ts + 946684800)\<close>, both in 32-bit arithmetic
  (\<open>u32\<close> wraps around), \<open>setEpoch\<close> taking its default \<open>subSeconds\<close>.
\<close>

theorem Y2k_epoch_shift:
  "fst (getY2kEpoch env s) = fst (fst (getEpoch env s)) - 946684800 \<and>
   snd (getY2kEpoch env s) = snd (getEpoch env s) \<and>
   setY2kEpoch env ts s = setEpoch env (ts + 946684800) (default_subSeconds env) s"
  by (simp add: getY2kEpoch_def setY2kEpoch_def EPOCH_TIME_OFF_def split: prod.splits)

text \<open>
  C6: for every \<open>ts < 946684800\<close>, \<open>setEpoch(ts, subSeconds)\<close> is
  \<open>setEpoch(946684800, subSeconds)\<close> and \<open>setAlarmEpoch(ts, match, subSeconds)\<close> is
  \<open>setAlarmEpoch(946684800, match, subSeconds)\<close>: they return the same state.
\<close>

theorem epoch_floor:
  "ts < 946684800 \<Longrightarrow>
   setEpoch env ts subSeconds s = setEpoch env 946684800 subSeconds s \<and>
   setAlarmEpoch env ts match subSeconds s = setAlarmEpoch env 946684800 match subSeconds s"
  by (simp add: setEpoch_def setAlarmEpoch_def EPOCH_TIME_OFF_def)

text \<open>C6 at \<open>ts = 5\<close>: the cached date becomes Saturday 1 January 2000.\<close>

theorem epoch_floor_witness:
  "(5 :: u32) < 946684800 \<and>
   setEpoch reg_platform 5 0 demo_state = setEpoch reg_platform 946684800 0 demo_state \<and>
   setAlarmEpoch reg_platform 5 MATCH_SS 0 demo_state =
     setAlarmEpoch reg_platform 946684800 MATCH_SS 0 demo_state \<and>
   m_year (setEpoch reg_platform 5 0 demo_state) = 0 \<and>
   m_month (setEpoch reg_platform 5 0 demo_state) = 1 \<and>
   m_day (setEpoch reg_platform 5 0 demo_state) = 1 \<and>
   m_wday (setEpoch reg_platform 5 0 demo_state) = 6"
  using epoch_floor [of 5 reg_platform 0 demo_state MATCH_SS]
  by (simp add: setEpoch_def EPOCH_TIME_OFF_def EPOCH_TIME_YEAR_OFF_def gmtime_Y2K)

section \<open>Setting the epoch and getting it back\<close>

text \<open>
  The wrapper between the two conversions: on a driver that reads back an in-range date
  and time, \<open>getEpoch\<close> recomposes the cached fields as they are, provided they are in
  range.
\<close>

lemma reads_back_in_rangeD:
  assumes "reads_back_in_range env"
    and "y < 100" "1 \<le> mo" "mo \<le> 12" "1 \<le> d" "d \<le> 31" "1 \<le> w" "w \<le> 7"
    and "h < 24" "mi < 60" "se < 60" "ss < 1000"
    and "RTC_GetDate env cd (RTC_SetTime env h mi se ss p (RTC_SetDate env y mo d w h0)) =
           ((y', mo', d', w'), h1)"
    and "RTC_GetTime env ct h1 = ((h', mi', se', ss', p'), h2)"
  shows "y' = y \<and> mo' = mo \<and> d' = d \<and> h' = h \<and> mi' = mi \<and> se' = se"
proof -
  from assms(1) have
    "y < 100 \<longrightarrow> 1 \<le> mo \<longrightarrow> mo \<le> 12 \<longrightarrow> 1 \<le> d \<longrightarrow> d \<le> 31 \<longrightarrow> 1 \<le> w \<longrightarrow> w \<le> 7 \<longrightarrow>
     h < 24 \<longrightarrow> mi < 60 \<longrightarrow> se < 60 \<longrightarrow> ss < 1000 \<longrightarrow>
     (case RTC_GetDate env cd (RTC_SetTime env h mi se ss p (RTC_SetDate env y mo d w h0)) of
        ((y', mo', d', w'), h1) \<Rightarrow>
          y' = y \<and> mo' = mo \<and> d' = d \<and>
          (case RTC_GetTime env ct h1 of
             ((h', mi', se', ss', p'), h2) \<Rightarrow> h' = h \<and> mi' = mi \<and> se' = se))"
    unfolding reads_back_in_range_def by (elim allE) assumption
  with assms(2-14) show ?thesis by simp
qed

lemma getEpoch_after_write:
  assumes rb: "reads_back_in_range env"
    and r: "in_range s" "1 \<le> m_wday s" "m_wday s \<le> 7"
    and w: "hw s = RTC_SetTime env (m_hours s) (m_minutes s) (m_seconds s) (m_subSeconds s) p
                  (RTC_SetDate env (m_year s) (m_month s) (m_day s) (m_wday s) h0)"
  shows "fst (fst (getEpoch env s)) =
     word_of_int (mktime
       \<lparr>tm_sec = uint (m_seconds s), tm_min = uint (m_minutes s), tm_hour = uint (m_hours s),
        tm_mday = uint (m_day s), tm_mon = uint (m_month s) - 1,
        tm_year = uint (m_year s) + 100, tm_wday = 0, tm_yday = 0, tm_isdst = - 1\<rparr>)"
proof -
  obtain y' mo' d' w' h1 where gd:
    "RTC_GetDate env (m_year s, m_month s, m_day s, m_wday s) (hw s) = ((y', mo', d', w'), h1)"
    by (metis prod.exhaust)
  define s1 where "s1 = syncDate env s"
  obtain h' mi' se' ss' p' h2 where gt:
    "RTC_GetTime env (m_hours s1, m_minutes s1, m_seconds s1, m_subSeconds s1, HOUR_AM) h1 =
       ((h', mi', se', ss', p'), h2)"
    by (metis prod.exhaust)
  from r(1) have f: "m_year s < 100" "1 \<le> m_month s" "m_month s \<le> 12" "1 \<le> m_day s"
    "m_day s \<le> 31" "m_hours s < 24" "m_minutes s < 60" "m_seconds s < 60"
    "m_subSeconds s < 1000"
    by (simp_all add: in_range_def)
  from reads_back_in_rangeD [OF rb f(1-5) r(2,3) f(6-9) gd [unfolded w] gt]
  have eq: "y' = m_year s" "mo' = m_month s" "d' = m_day s" "h' = m_hours s"
    "mi' = m_minutes s" "se' = m_seconds s" by simp_all
  from gd eq(1-3) have s1: "s1 = s\<lparr>m_wday := w', hw := h1\<rparr>"
    by (simp add: s1_def syncDate_def)
  from gt have gt': "RTC_GetTime env (m_hours s, m_minutes s, m_seconds s, m_subSeconds s, HOUR_AM) h1 =
       ((h', mi', se', ss', p'), h2)" by (simp add: s1)
  have "getEpoch env s =
      (let s2 = syncTime env s1;
           t = \<lparr>tm_sec = uint (m_seconds s2), tm_min = uint (m_minutes s2),
               tm_hour = uint (m_hours s2), tm_mday = uint (m_day s2),
               tm_mon = uint (m_month s2) - 1,
               tm_year = uint (m_year s2) + EPOCH_TIME_YEAR_OFF,
               tm_wday = 0, tm_yday = 0, tm_isdst = - 1\<rparr>
       in ((word_of_int (mktime t), m_subSeconds s2), s2))"
    by (simp add: getEpoch_def s1_def Let_def)
  then show ?thesis
    by (simp add: Let_def s1 syncTime_def gt' eq EPOCH_TIME_YEAR_OFF_def)
qed

lemma mktime_six_fields:
  "mktime \<lparr>tm_sec = tm_sec t, tm_min = tm_min t, tm_hour = tm_hour t, tm_mday = tm_mday t,
           tm_mon = tm_mon t, tm_year = tm_year t, tm_wday = a, tm_yday = b, tm_isdst = c\<rparr> =
   mktime t"
  by (simp add: mktime_def)

text \<open>
  The driver that checks its arguments reads back an in-range date and time, and keeps
  the registers in range.
\<close>

lemma checked_platform_reads_back: "reads_back_in_range checked_platform"
  by (simp add: reads_back_in_range_def checked_platform_def reg_platform_def)

lemma checked_platform_in_range: "driver_in_range checked_platform reg_ok"
  by (simp add: driver_in_range_def checked_platform_def reg_platform_def reg_ok_def)

text \<open>
  On a driver whose get functions always return values in range, \<open>getEpoch\<close> returns an
  instant before 1 January 2100, whatever the state: the cached year has two digits. So
  on such a driver no \<open>ts\<close> from 4102444800 on comes back from \<open>getEpoch\<close>.
\<close>

lemma getEpoch_before_2100:
  assumes "driver_in_range env (\<lambda>h. True)"
  shows "fst (fst (getEpoch env s)) < 4102444800"
proof -
  obtain y mo d w h1 where gd:
    "RTC_GetDate env (m_year s, m_month s, m_day s, m_wday s) (hw s) = ((y, mo, d, w), h1)"
    by (metis prod.exhaust)
  define s1 where "s1 = syncDate env s"
  obtain ho mi se ss p h2 where gt:
    "RTC_GetTime env (m_hours s1, m_minutes s1, m_seconds s1, m_subSeconds s1, HOUR_AM) (hw s1) =
       ((ho, mi, se, ss, p), h2)"
    by (metis prod.exhaust)
  from driver_in_rangeD(2) [OF assms _ gd]
  have dr: "y < 100" "1 \<le> mo" "mo \<le> 12" "1 \<le> d" "d \<le> 31" by simp_all
  from driver_in_rangeD(1) [OF assms _ gt]
  have tr: "ho < 24" "mi < 60" "se < 60" by simp_all
  define t where "t =
    \<lparr>tm_sec = uint se, tm_min = uint mi, tm_hour = uint ho, tm_mday = uint d,
     tm_mon = uint mo - 1, tm_year = uint y + 100, tm_wday = 0, tm_yday = 0, tm_isdst = - 1\<rparr>"
  from dr tr have "946684800 \<le> mktime t \<and> mktime t < 4102444800"
    by (intro mktime_in_range_bounds) (simp_all add: t_def word_less_def word_le_def)
  then have b: "0 \<le> mktime t" "mktime t < 4102444800" by simp_all
  have s1: "s1 = s\<lparr>m_year := y, m_month := mo, m_day := d, m_wday := w, hw := h1\<rparr>"
    by (simp add: s1_def syncDate_def gd)
  have "getEpoch env s =
      (let s2 = syncTime env s1;
           t = \<lparr>tm_sec = uint (m_seconds s2), tm_min = uint (m_minutes s2),
               tm_hour = uint (m_hours s2), tm_mday = uint (m_day s2),
               tm_mon = uint (m_month s2) - 1,
               tm_year = uint (m_year s2) + EPOCH_TIME_YEAR_OFF,
               tm_wday = 0, tm_yday = 0, tm_isdst = - 1\<rparr>
       in ((word_of_int (mktime t), m_subSeconds s2), s2))"
    by (simp add: getEpoch_def s1_def Let_def)
  then have e: "fst (fst (getEpoch env s)) = word_of_int (mktime t)"
    using gt by (simp add: Let_def syncTime_def s1 t_def EPOCH_TIME_YEAR_OFF_def)
  from b have "uint (word_of_int (mktime t) :: u32) = mktime t"
    by (simp add: uint_word_of_int_eq take_bit_int_eq_self)
  with b(2) show ?thesis unfolding e by (simp add: word_less_def)
qed

text \<open>
  C7, as the claim states it, fails from 1 January 2100 on. On the driver that checks
  its arguments, with registers and cached fields in range, \<open>setEpoch(4102444800)\<close>
  caches the year 100, which \<open>RTC_SetDate\<close> refuses: the hardware keeps the year 21 and
  its date, 15 June, takes the time 00:00:00, and \<open>getEpoch\<close> returns 1623715200, not
  4102444800.
\<close>

theorem roundtrip_fails_from_2100:
  "driver_in_range checked_platform reg_ok \<and> reg_ok demo_hw \<and> in_range demo_state \<and>
   (946684800 :: u32) \<le> 4102444800 \<and>
   m_year (setEpoch checked_platform 4102444800 0 demo_state) = 100 \<and>
   r_year (hw (setEpoch checked_platform 4102444800 0 demo_state)) = 21 \<and>
   fst (fst (getEpoch checked_platform (setEpoch checked_platform 4102444800 0 demo_state))) =
     1623715200 \<and>
   fst (fst (getEpoch checked_platform (setEpoch checked_platform 4102444800 0 demo_state))) \<noteq>
     4102444800"
proof -
  have a: "reg_ok demo_hw" "in_range demo_state"
    by (simp_all add: reg_ok_def in_range_def demo_hw_def demo_state_def)
  have s: "setEpoch checked_platform 4102444800 0 demo_state =
      demo_state\<lparr>m_year := 100, m_month := 1, m_day := 1, m_wday := 5, m_hours := 0,
        m_minutes := 0, m_seconds := 0, m_subSeconds := 0,
        hw := demo_hw\<lparr>r_hours := 0, r_minutes := 0, r_seconds := 0, r_period := HOUR_AM\<rparr>,
        s_timeSet := True\<rparr>"
    by (simp add: setEpoch_def Let_def EPOCH_TIME_OFF_def EPOCH_TIME_YEAR_OFF_def gmtime_2100
        checked_platform_def reg_platform_def demo_state_def)
  have g: "fst (fst (getEpoch checked_platform (setEpoch checked_platform 4102444800 0 demo_state))) =
      1623715200"
    unfolding s
    by (simp add: getEpoch_def syncDate_def syncTime_def Let_def EPOCH_TIME_YEAR_OFF_def
        checked_platform_def reg_platform_def demo_state_def demo_hw_def mktime_demo_midnight)
  have y: "m_year (setEpoch checked_platform 4102444800 0 demo_state) = 100"
    "r_year (hw (setEpoch checked_platform 4102444800 0 demo_state)) = 21"
    unfolding s by (simp_all add: demo_hw_def)
  from checked_platform_in_range a y show ?thesis
    unfolding g by simp
qed

text \<open>
  C7, amended: on a driver that reads back an in-range date and time, with
  \<^verbatim>\<open>RTC_WEEKDAY_SUNDAY\<close> a weekday number 1..7, for every \<open>ts\<close> from 946684800 up to, and
  not including, 4102444800 (1 January 2000 to 31 December 2099) and every
  \<open>subSeconds < 1000\<close>, \<open>getEpoch\<close> after \<open>setEpoch(ts, subSeconds)\<close> returns \<open>ts\<close>. In
  between, the cached fields are those of \<open>gmtime\<close>, which \<open>mktime\<close> recomposes to \<open>ts\<close>:
  the cached year is the calendar year minus 2000 and lies in 0..99, the cached month
  is \<open>tm_mon + 1\<close> and lies in 1..12, and day, hours, minutes and seconds are \<open>gmtime\<close>'s.
  Nothing is said of \<open>ts\<close> from 4102444800 on.
\<close>

theorem setEpoch_getEpoch_roundtrip:
  assumes "reads_back_in_range env"
    and "1 \<le> RTC_WEEKDAY_SUNDAY env" and "RTC_WEEKDAY_SUNDAY env \<le> 7"
    and "946684800 \<le> ts" and "ts < 4102444800" and "subSeconds < 1000"
  shows "fst (fst (getEpoch env (setEpoch env ts subSeconds s))) = ts \<and>
         mktime (gmtime (uint ts)) = uint ts \<and>
         uint (m_year (setEpoch env ts subSeconds s)) + 2000 = tm_year (gmtime (uint ts)) + 1900 \<and>
         m_year (setEpoch env ts subSeconds s) < 100 \<and>
         uint (m_month (setEpoch env ts subSeconds s)) = tm_mon (gmtime (uint ts)) + 1 \<and>
         1 \<le> m_month (setEpoch env ts subSeconds s) \<and>
         m_month (setEpoch env ts subSeconds s) \<le> 12 \<and>
         uint (m_day (setEpoch env ts subSeconds s)) = tm_mday (gmtime (uint ts)) \<and>
         uint (m_hours (setEpoch env ts subSeconds s)) = tm_hour (gmtime (uint ts)) \<and>
         uint (m_minutes (setEpoch env ts subSeconds s)) = tm_min (gmtime (uint ts)) \<and>
         uint (m_seconds (setEpoch env ts subSeconds s)) = tm_sec (gmtime (uint ts))"
proof -
  define t where "t = gmtime (uint ts)"
  define s' where "s' = setEpoch env ts subSeconds s"
  from assms(4) have lo: "946684800 \<le> uint ts" by (simp add: word_le_def)
  then have nn: "0 \<le> uint ts" by simp
  from assms(5) have hi: "uint ts < 4102444800" by (simp add: word_less_def)
  from gmtime_fields [OF nn] gmtime_year_from_2000 [OF lo] gmtime_year_before_2100 [OF nn hi]
  have f: "0 \<le> tm_sec t" "tm_sec t < 60" "0 \<le> tm_min t" "tm_min t < 60"
    "0 \<le> tm_hour t" "tm_hour t < 24" "1 \<le> tm_mday t" "tm_mday t \<le> 31"
    "0 \<le> tm_mon t" "tm_mon t \<le> 11" "100 \<le> tm_year t" "tm_year t \<le> 199"
    "0 \<le> tm_wday t" "tm_wday t \<le> 6"
    by (simp_all add: t_def)
  from assms(4) have ge: "\<not> ts < EPOCH_TIME_OFF" by (simp add: EPOCH_TIME_OFF_def)
  have fields:
    "m_year s' = word_of_int (tm_year t - 100)" "m_month s' = word_of_int (tm_mon t + 1)"
    "m_day s' = word_of_int (tm_mday t)" "m_hours s' = word_of_int (tm_hour t)"
    "m_minutes s' = word_of_int (tm_min t)" "m_seconds s' = word_of_int (tm_sec t)"
    by (simp_all add: s'_def setEpoch_def Let_def ge t_def EPOCH_TIME_YEAR_OFF_def)
  have u: "uint (m_year s') = tm_year t - 100" "uint (m_month s') = tm_mon t + 1"
    "uint (m_day s') = tm_mday t" "uint (m_hours s') = tm_hour t"
    "uint (m_minutes s') = tm_min t" "uint (m_seconds s') = tm_sec t"
    unfolding fields using f by (intro uint_byte_of_int; linarith)+
  have ss: "m_subSeconds s' = subSeconds"
    by (simp add: s'_def setEpoch_def Let_def)
  from u f assms(6) have rng: "in_range s'"
    by (simp add: in_range_def word_less_def word_le_def ss)
  have wd: "m_wday s' =
      (if tm_wday t = 0 then RTC_WEEKDAY_SUNDAY env else word_of_int (tm_wday t))"
    by (simp add: s'_def setEpoch_def Let_def ge t_def)
  have wr: "1 \<le> m_wday s'" "m_wday s' \<le> 7"
  proof -
    show "1 \<le> m_wday s'"
    proof (cases "tm_wday t = 0")
      case True
      with assms(2) show ?thesis by (simp add: wd)
    next
      case False
      with f(13,14) have "1 \<le> tm_wday t" "tm_wday t < 256" by simp_all
      with False show ?thesis by (simp add: wd byte_of_int_le)
    qed
    show "m_wday s' \<le> 7"
    proof (cases "tm_wday t = 0")
      case True
      with assms(3) show ?thesis by (simp add: wd)
    next
      case False
      with f(13,14) have "0 \<le> tm_wday t" "tm_wday t < 256" "tm_wday t \<le> 7" by simp_all
      with False show ?thesis by (simp add: wd byte_of_int_le)
    qed
  qed
  have written: "hw s' = RTC_SetTime env (m_hours s') (m_minutes s') (m_seconds s')
       (m_subSeconds s') (if m_hoursPeriod s' = AM then HOUR_AM else HOUR_PM)
       (RTC_SetDate env (m_year s') (m_month s') (m_day s') (m_wday s') (hw s))"
    by (simp add: s'_def setEpoch_def Let_def)
  have rt: "mktime t = uint ts" by (simp add: t_def mktime_gmtime [OF nn])
  have "fst (fst (getEpoch env s')) = word_of_int (mktime t)"
    by (simp add: getEpoch_after_write [OF assms(1) rng wr written] u mktime_six_fields)
  then have g: "fst (fst (getEpoch env s')) = ts" by (simp add: rt)
  from rng have r: "m_year s' < 100" "1 \<le> m_month s'" "m_month s' \<le> 12"
    by (simp_all add: in_range_def)
  from g rt u r show ?thesis by (simp add: s'_def t_def)
qed

text \<open>
  C7, amended, at \<open>ts = 2000000000\<close>, Wednesday 18 May 2033, 03:33:20, on the driver that
  checks its arguments; before \<open>setEpoch\<close>, \<open>getEpoch\<close> returned the hardware's 1623752407.
\<close>

theorem setEpoch_getEpoch_roundtrip_witness:
  "reads_back_in_range checked_platform \<and>
   1 \<le> RTC_WEEKDAY_SUNDAY checked_platform \<and> RTC_WEEKDAY_SUNDAY checked_platform \<le> 7 \<and>
   (946684800 :: u32) \<le> 2000000000 \<and> (2000000000 :: u32) < 4102444800 \<and>
   (0 :: u32) < 1000 \<and>
   fst (fst (getEpoch checked_platform (setEpoch checked_platform 2000000000 0 demo_state))) =
     2000000000 \<and>
   fst (fst (getEpoch checked_platform demo_state)) = 1623752407 \<and>
   m_year (setEpoch checked_platform 2000000000 0 demo_state) = 33 \<and>
   m_month (setEpoch checked_platform 2000000000 0 demo_state) = 5 \<and>
   m_day (setEpoch checked_platform 2000000000 0 demo_state) = 18 \<and>
   m_hours (setEpoch checked_platform 2000000000 0 demo_state) = 3 \<and>
   m_minutes (setEpoch checked_platform 2000000000 0 demo_state) = 33 \<and>
   m_seconds (setEpoch checked_platform 2000000000 0 demo_state) = 20 \<and>
   r_year (hw (setEpoch checked_platform 2000000000 0 demo_state)) = 33"
proof -
  have su: "1 \<le> RTC_WEEKDAY_SUNDAY checked_platform" "RTC_WEEKDAY_SUNDAY checked_platform \<le> 7"
    by (simp_all add: checked_platform_def reg_platform_def)
  have b: "(946684800 :: u32) \<le> 2000000000" "(2000000000 :: u32) < 4102444800"
    "(0 :: u32) < 1000"
    by simp_all
  note rt = setEpoch_getEpoch_roundtrip [OF checked_platform_reads_back su b, of demo_state]
  have before: "fst (fst (getEpoch checked_platform demo_state)) = 1623752407"
    by (simp add: getEpoch_def syncDate_def syncTime_def Let_def EPOCH_TIME_YEAR_OFF_def
        checked_platform_def reg_platform_def demo_state_def demo_hw_def mktime_demo)
  have s: "setEpoch checked_platform 2000000000 0 demo_state =
      demo_state\<lparr>m_year := 33, m_month := 5, m_day := 18, m_wday := 3, m_hours := 3,
        m_minutes := 33, m_seconds := 20, m_subSeconds := 0,
        hw := demo_hw\<lparr>r_year := 33, r_month := 5, r_day := 18, r_wday := 3, r_hours := 3,
                r_minutes := 33, r_seconds := 20, r_period := HOUR_AM\<rparr>,
        s_timeSet := True\<rparr>"
    by (simp add: setEpoch_def Let_def EPOCH_TIME_OFF_def EPOCH_TIME_YEAR_OFF_def gmtime_2033
        checked_platform_def reg_platform_def demo_state_def)
  have f: "m_year (setEpoch checked_platform 2000000000 0 demo_state) = 33"
    "m_month (setEpoch checked_platform 2000000000 0 demo_state) = 5"
    "m_day (setEpoch checked_platform 2000000000 0 demo_state) = 18"
    "m_hours (setEpoch checked_platform 2000000000 0 demo_state) = 3"
    "m_minutes (setEpoch checked_platform 2000000000 0 demo_state) = 33"
    "m_seconds (setEpoch checked_platform 2000000000 0 demo_state) = 20"
    "r_year (hw (setEpoch checked_platform 2000000000 0 demo_state)) = 33"
    unfolding s by simp_all
  from rt have "fst (fst (getEpoch checked_platform
      (setEpoch checked_platform 2000000000 0 demo_state))) = 2000000000" by (rule conjunct1)
  with checked_platform_reads_back su b before f show ?thesis by simp
qed

section \<open>The alarm-match policy\<close>

text \<open>
  C8: \<open>enableAlarm(match)\<close> stops the hardware alarm for \<open>MATCH_OFF\<close>; for each of the six
  other enumerators it starts the hardware alarm with the cached alarm day, hours,
  minutes, seconds, subseconds and period and with that match value; in every case the
  cached alarm match becomes \<open>match\<close>. Nothing else of the state changes.
\<close>

theorem enableAlarm_policy:
  "enableAlarm env MATCH_OFF s = s\<lparr>m_alarmMatch := MATCH_OFF, hw := RTC_StopAlarm env (hw s)\<rparr> \<and>
   (\<forall>match \<in> {MATCH_YYMMDDHHMMSS, MATCH_MMDDHHMMSS, MATCH_DHHMMSS, MATCH_HHMMSS,
               MATCH_MMSS, MATCH_SS}.
      enableAlarm env match s =
        s\<lparr>m_alarmMatch := match,
          hw := RTC_StartAlarm env (m_alarmDay s) (m_alarmHours s) (m_alarmMinutes s)
                  (m_alarmSeconds s) (m_alarmSubSeconds s)
                  (if m_alarmPeriod s = AM then HOUR_AM else HOUR_PM)
                  (Alarm_Match_value env match) (hw s)\<rparr>) \<and>
   m_alarmMatch (enableAlarm env match s) = match"
  by (cases match) (simp_all add: enableAlarm_def)

text \<open>C8 at \<open>MATCH_SS\<close> on the register-file driver.\<close>

theorem enableAlarm_policy_witness:
  "MATCH_SS \<in> {MATCH_YYMMDDHHMMSS, MATCH_MMDDHHMMSS, MATCH_DHHMMSS, MATCH_HHMMSS,
               MATCH_MMSS, MATCH_SS} \<and>
   hw (enableAlarm reg_platform MATCH_SS demo_state) =
     demo_hw\<lparr>r_alarmDay := 1, r_alarmHours := 0, r_alarmMinutes := 0, r_alarmSeconds := 0,
       r_alarmSubSeconds := 0, r_alarmPeriod := HOUR_AM, r_alarmMatch := 1, r_alarmOn := True\<rparr> \<and>
   m_alarmMatch (enableAlarm reg_platform MATCH_SS demo_state) = MATCH_SS \<and>
   r_alarmOn (hw (enableAlarm reg_platform MATCH_OFF demo_state)) = False"
  using enableAlarm_policy [of reg_platform demo_state MATCH_SS]
  by (simp add: reg_platform_def demo_state_def reg_match_value_def)

section \<open>Alarm month and year\<close>

text \<open>
  C9: \<open>getAlarmMonth\<close> and \<open>getAlarmYear\<close> return 0 and leave the state (cached fields
  and hardware) unchanged; \<open>setAlarmMonth\<close> and \<open>setAlarmYear\<close> leave the state unchanged;
  \<open>setAlarmDate(day, month, year)\<close> is \<open>setAlarmDay(day)\<close>.
\<close>

theorem alarm_month_year_ignored:
  "getAlarmMonth s = (0, s) \<and> getAlarmYear s = (0, s) \<and>
   setAlarmMonth month s = s \<and> setAlarmYear year s = s \<and>
   setAlarmDate day month year s = setAlarmDay day s"
  by (simp add: getAlarmMonth_def getAlarmYear_def setAlarmMonth_def setAlarmYear_def
      setAlarmDate_def)

section \<open>Subseconds\<close>

text \<open>
  C10: \<open>setEpoch(ts, subSeconds)\<close> leaves \<open>subSeconds\<close> in the cached subseconds field
  whatever its value, while \<open>setSubSeconds\<close> and \<open>setAlarmSubSeconds\<close> store it only if
  it is below 1000 and otherwise keep the synchronised, respectively the previous,
  value.
\<close>

theorem setEpoch_subSeconds_unchecked:
  "m_subSeconds (setEpoch env ts subSeconds s) = subSeconds \<and>
   m_subSeconds (setSubSeconds env subSeconds s) =
     (if subSeconds < 1000 then subSeconds else m_subSeconds (syncTime env s)) \<and>
   m_alarmSubSeconds (setAlarmSubSeconds subSeconds s) =
     (if subSeconds < 1000 then subSeconds else m_alarmSubSeconds s)"
  by (simp add: setEpoch_def setSubSeconds_def setAlarmSubSeconds_def Let_def)

end
